theory Spec2Isabelle
  imports Complex_Main "HOL-Library.Word"
begin

unbundle bit_operations_syntax

section \<open>Common conventions\<close>

text \<open>
  The development embeds \<^verbatim>\<open>scripts/network_monitor.py\<close> (class \<^verbatim>\<open>NetworkMonitor\<close>) and
  \<^verbatim>\<open>scripts/anomaly_detector.py\<close> (class \<^verbatim>\<open>AnomalyDetector\<close>).

  \<^item> The attributes of an object are the fields of a record; a method takes the record and
    returns the updated one next to its return value.
  \<^item> A Python dict is a map; \<^verbatim>\<open>defaultdict\<close> lookups that create the key are written out.
  \<^item> \<^verbatim>\<open>time.time()\<close> and \<^verbatim>\<open>datetime.now()\<close> read the system clock. Every method of the
    model receives the reading it makes as an argument of type \<open>real\<close> (seconds); the
    readings made inside one invocation of a method are one value, and the ISO-8601
    rendering of \<^verbatim>\<open>datetime.now().isoformat()\<close> is not modelled: the field holds the reading.
    No theorem assumes that successive readings increase.
  \<^item> Python floats are idealised as real numbers.
  \<^item> An exception is a value of \<open>py_error\<close>; a \<^verbatim>\<open>try/except Exception\<close> block catches it.
\<close>

type_synonym byte = "8 word"
type_synonym port = "16 word"

datatype py_error = StructError | StatisticsError | AttributeError | KeyError

subsection \<open>Rendering integers, as f-strings and \<^verbatim>\<open>inet_ntoa\<close> do\<close>

definition digit_char :: "nat \<Rightarrow> char" where
  "digit_char d = ''0123456789'' ! (d mod 10)"

fun str_nat :: "nat \<Rightarrow> string" where
  "str_nat n = (if n < 10 then [digit_char n] else str_nat (n div 10) @ [digit_char (n mod 10)])"

declare str_nat.simps [simp del]

definition str_int :: "int \<Rightarrow> string" where
  "str_int i = (if i < 0 then CHR ''-'' # str_nat (nat (- i)) else str_nat (nat i))"

text \<open>\<^verbatim>\<open>int(x)\<close> on a float truncates towards zero.\<close>

definition py_int :: "real \<Rightarrow> int" where
  "py_int x = (if 0 \<le> x then \<lfloor>x\<rfloor> else \<lceil>x\<rceil>)"

text \<open>\<^verbatim>\<open>socket.inet_ntoa\<close> of four bytes: the dotted quad.\<close>

definition inet_ntoa :: "byte list \<Rightarrow> string" where
  "inet_ntoa bs =
     str_nat (unat (bs ! 0)) @ ''.'' @ str_nat (unat (bs ! 1)) @ ''.'' @
     str_nat (unat (bs ! 2)) @ ''.'' @ str_nat (unat (bs ! 3))"

section \<open>The decoder\<close>

record ip_info =
  version :: nat
  header_length :: nat
  ttl :: nat
  protocol :: nat
  source_ip :: string
  destination_ip :: string

record tcp_info =
  source_port :: port
  destination_port :: port
  sequence :: "32 word"
  acknowledgement :: "32 word"
  tcp_header_length :: nat
  flags :: byte

text \<open>Big-endian fields of \<^verbatim>\<open>struct.unpack\<close>: \<^verbatim>\<open>H\<close> is two bytes, \<^verbatim>\<open>L\<close> four.\<close>

definition be16 :: "byte list \<Rightarrow> nat \<Rightarrow> port" where
  "be16 bs i = word_of_nat (256 * unat (bs ! i) + unat (bs ! (i + 1)))"

definition be32 :: "byte list \<Rightarrow> nat \<Rightarrow> 32 word" where
  "be32 bs i =
     word_of_nat (16777216 * unat (bs ! i) + 65536 * unat (bs ! (i + 1)) +
                  256 * unat (bs ! (i + 2)) + unat (bs ! (i + 3)))"

text \<open>
  The body of the \<^verbatim>\<open>try\<close> block of \<^verbatim>\<open>parse_ip_header\<close>. The slice \<^verbatim>\<open>packet[0:20]\<close> never fails;
  \<^verbatim>\<open>struct.unpack('!BBHHHBBH4s4s', ...)\<close> raises \<^verbatim>\<open>struct.error\<close> unless it is given exactly 20
  bytes. Nothing after the unpack can raise, and nothing inspects \<^verbatim>\<open>version\<close> or \<^verbatim>\<open>ihl\<close>.
\<close>

definition parse_ip_header_body :: "byte list \<Rightarrow> py_error + ip_info" where
  "parse_ip_header_body packet =
     (let ip_header = take 20 packet in
      if length ip_header \<noteq> 20 then Inl StructError
      else
        let version_ihl = unat (ip_header ! 0);
            ihl = version_ihl AND 0xF
        in Inr \<lparr> version = drop_bit 4 version_ihl,
                 header_length = ihl * 4,
                 ttl = unat (ip_header ! 8),
                 protocol = unat (ip_header ! 9),
                 source_ip = inet_ntoa (take 4 (drop 12 ip_header)),
                 destination_ip = inet_ntoa (take 4 (drop 16 ip_header)) \<rparr>)"

text \<open>\<^verbatim>\<open>except Exception\<close>: the error is printed and \<^verbatim>\<open>None\<close> is returned.\<close>

definition parse_ip_header :: "byte list \<Rightarrow> ip_info option" where
  "parse_ip_header packet =
     (case parse_ip_header_body packet of Inl e \<Rightarrow> None | Inr info \<Rightarrow> Some info)"

definition parse_tcp_header_body :: "byte list \<Rightarrow> nat \<Rightarrow> py_error + tcp_info" where
  "parse_tcp_header_body packet ip_header_length =
     (let tcp_header = take 20 (drop ip_header_length packet) in
      if length tcp_header \<noteq> 20 then Inl StructError
      else
        let doff_reserved = unat (tcp_header ! 12)
        in Inr \<lparr> source_port = be16 tcp_header 0,
                 destination_port = be16 tcp_header 2,
                 sequence = be32 tcp_header 4,
                 acknowledgement = be32 tcp_header 8,
                 tcp_header_length = drop_bit 4 doff_reserved * 4,
                 flags = tcp_header ! 13 \<rparr>)"

definition parse_tcp_header :: "byte list \<Rightarrow> nat \<Rightarrow> tcp_info option" where
  "parse_tcp_header packet ip_header_length =
     (case parse_tcp_header_body packet ip_header_length of
        Inl e \<Rightarrow> None | Inr info \<Rightarrow> Some info)"

section \<open>The network monitor\<close>

record config =
  port_scan_threshold :: int
  ddos_threshold :: int
  monitoring_enabled :: bool
  auto_block :: bool

text \<open>
  An alert dict. \<open>alert_id\<close>, \<open>alert_type\<close>, \<open>alert_timestamp\<close>, \<open>alert_source_ip\<close>,
  \<open>alert_destination_ip\<close> and \<open>alert_status\<close> are the keys \<^verbatim>\<open>id\<close>, \<^verbatim>\<open>type\<close>, \<^verbatim>\<open>timestamp\<close>,
  \<^verbatim>\<open>source_ip\<close>, \<^verbatim>\<open>destination_ip\<close> and \<^verbatim>\<open>status\<close>.
\<close>

record alert =
  alert_id :: string
  alert_type :: string
  title :: string
  description :: string
  alert_timestamp :: real
  alert_source_ip :: string
  alert_destination_ip :: string
  alert_status :: string

record activity =
  act_timestamp :: real
  action :: string
  details :: string
  severity :: string

text \<open>
  An entry of \<^verbatim>\<open>ip_investigation_data\<close>. The list \<^verbatim>\<open>ports_accessed\<close> is built from a set and
  extended only by \<^verbatim>\<open>if dest_port not in ...: append\<close>, so it never holds a port twice; its
  order is the iteration order of a Python set, which the language leaves open. The model
  keeps its elements. \<open>dossier_notes\<close> is the key \<^verbatim>\<open>notes\<close>. The keys \<^verbatim>\<open>status\<close> and \<^verbatim>\<open>last_seen\<close> are absent until
  \<^verbatim>\<open>get_ip_investigation_data\<close> writes them.
\<close>

record dossier =
  first_seen :: real
  activities :: "activity list"
  ports_accessed :: "port set"
  classification :: string
  dossier_notes :: string
  status :: "string option"
  last_seen :: "real option"

record traffic_entry =
  timestamp :: real
  entry_source_ip :: string
  dest_ip :: string
  dest_port :: port
  entry_protocol :: string
  entry_flags :: byte

record monitor =
  packet_count :: nat
  suspicious_packets :: nat
  connection_tracker :: "string \<rightharpoonup> real list"
  port_scan_tracker :: "string \<rightharpoonup> port set"
  traffic_history :: "traffic_entry list"
  blocked_ips :: "string set"
  whitelisted_ips :: "string set"
  alerts :: "alert list"
  ip_investigation_data :: "string \<rightharpoonup> dossier"
  config :: config

text \<open>\<^verbatim>\<open>NetworkMonitor.__init__\<close>.\<close>

definition init_monitor :: monitor where
  "init_monitor =
     \<lparr> packet_count = 0, suspicious_packets = 0,
       connection_tracker = Map.empty, port_scan_tracker = Map.empty,
       traffic_history = [], blocked_ips = {}, whitelisted_ips = {},
       alerts = [], ip_investigation_data = Map.empty,
       config = \<lparr> port_scan_threshold = 10, ddos_threshold = 100,
                  monitoring_enabled = True, auto_block = False \<rparr> \<rparr>"

text \<open>Reading \<^verbatim>\<open>d[k]\<close> of a \<^verbatim>\<open>defaultdict\<close>: the default when the key is missing.\<close>

definition dd_get :: "('k \<rightharpoonup> 'v) \<Rightarrow> 'v \<Rightarrow> 'k \<Rightarrow> 'v" where
  "dd_get d dflt k = (case d k of None \<Rightarrow> dflt | Some v \<Rightarrow> v)"

text \<open>\<^verbatim>\<open>deque(maxlen=n).append\<close>: the oldest entry leaves when the deque is full.\<close>

definition deque_append :: "nat \<Rightarrow> 'a list \<Rightarrow> 'a \<Rightarrow> 'a list" where
  "deque_append maxlen q x = (let q' = q @ [x] in drop (length q' - maxlen) q')"

text \<open>The \<^verbatim>\<open>activities.append(...)\<close> on the entry of an address that has one.\<close>

definition add_activity :: "monitor \<Rightarrow> string \<Rightarrow> activity \<Rightarrow> monitor" where
  "add_activity s ip a =
     (case ip_investigation_data s ip of
        None \<Rightarrow> s
      | Some d \<Rightarrow>
          s\<lparr>ip_investigation_data :=
              (ip_investigation_data s)(ip \<mapsto> d\<lparr>activities := activities d @ [a]\<rparr>)\<rparr>)"

text \<open>The dict literal that creates an entry of \<^verbatim>\<open>ip_investigation_data\<close>.\<close>

definition new_dossier :: "real \<Rightarrow> port set \<Rightarrow> dossier" where
  "new_dossier now ports =
     \<lparr> first_seen = now, activities = [], ports_accessed = ports,
       classification = ''unknown'', dossier_notes = [], status = None, last_seen = None \<rparr>"

text \<open>The auto-block at the end of both detectors.\<close>

definition auto_block_ip :: "monitor \<Rightarrow> string \<Rightarrow> monitor" where
  "auto_block_ip s ip =
     (if auto_block (config s) \<and> ip \<notin> whitelisted_ips s
      then s\<lparr>blocked_ips := insert ip (blocked_ips s)\<rparr> else s)"

definition port_scan_alert :: "string \<Rightarrow> nat \<Rightarrow> real \<Rightarrow> alert" where
  "port_scan_alert src n now =
     \<lparr> alert_id = ''ps_'' @ str_int (py_int now),
       alert_type = ''high'',
       title = ''Port Scan Detected'',
       description = ''IP '' @ src @ '' has accessed '' @ str_nat n @ '' different ports'',
       alert_timestamp = now,
       alert_source_ip = src,
       alert_destination_ip = ''multiple'',
       alert_status = ''active'' \<rparr>"

definition detect_port_scan :: "monitor \<Rightarrow> string \<Rightarrow> port \<Rightarrow> real \<Rightarrow> bool \<times> monitor" where
  "detect_port_scan s src dport current_time =
     (if src \<in> whitelisted_ips s then (False, s)
      else
        let ports = insert dport (dd_get (port_scan_tracker s) {} src);
            s1 = s\<lparr>port_scan_tracker := (port_scan_tracker s)(src \<mapsto> ports)\<rparr>
        in if int (card ports) > port_scan_threshold (config s1) then
             let s2 = s1\<lparr>alerts := alerts s1 @ [port_scan_alert src (card ports) current_time],
                        suspicious_packets := suspicious_packets s1 + 1\<rparr>;
                 s3 = (if ip_investigation_data s2 src = None
                       then s2\<lparr>ip_investigation_data :=
                              (ip_investigation_data s2)(src \<mapsto> new_dossier current_time ports)\<rparr>
                       else s2);
                 s4 = add_activity s3 src
                        \<lparr> act_timestamp = current_time,
                          action = ''Port Scan Detected'',
                          details = ''Accessed '' @ str_nat (card ports) @ '' different ports'',
                          severity = ''high'' \<rparr>
             in (True, auto_block_ip s4 src)
           else (False, s1))"

definition ddos_alert :: "string \<Rightarrow> nat \<Rightarrow> real \<Rightarrow> alert" where
  "ddos_alert src n now =
     \<lparr> alert_id = ''ddos_'' @ str_int (py_int now),
       alert_type = ''high'',
       title = ''DDoS Attack Detected'',
       description = ''IP '' @ src @ '' sent '' @ str_nat n @ '' packets in 1 second'',
       alert_timestamp = now,
       alert_source_ip = src,
       alert_destination_ip = ''multiple'',
       alert_status = ''active'' \<rparr>"

text \<open>The packets of \<open>src\<close> in the last second, as \<^verbatim>\<open>detect_ddos\<close> collects them.\<close>

definition recent_packets :: "monitor \<Rightarrow> string \<Rightarrow> real \<Rightarrow> real list" where
  "recent_packets s src current_time =
     filter (\<lambda>t. current_time - t < 1.0) (dd_get (connection_tracker s) [] src)"

definition detect_ddos :: "monitor \<Rightarrow> string \<Rightarrow> real \<Rightarrow> bool \<times> monitor" where
  "detect_ddos s src current_time =
     (if src \<in> whitelisted_ips s then (False, s)
      else
        let recent = recent_packets s src current_time;
            s1 = s\<lparr>connection_tracker :=
                     (connection_tracker s)(src \<mapsto> dd_get (connection_tracker s) [] src)\<rparr>
        in if int (length recent) > ddos_threshold (config s1) then
             let s2 = s1\<lparr>alerts := alerts s1 @ [ddos_alert src (length recent) current_time],
                        suspicious_packets := suspicious_packets s1 + 1\<rparr>;
                 s3 = (if ip_investigation_data s2 src = None
                       then s2\<lparr>ip_investigation_data :=
                              (ip_investigation_data s2)(src \<mapsto> new_dossier current_time {})\<rparr>
                       else s2);
                 s4 = add_activity s3 src
                        \<lparr> act_timestamp = current_time,
                          action = ''DDoS Attack Detected'',
                          details = ''Sent '' @ str_nat (length recent) @ '' packets in 1 second'',
                          severity = ''high'' \<rparr>
             in (True, auto_block_ip s4 src)
           else (False, s1))"

text \<open>
  The TCP branch of \<^verbatim>\<open>analyze_packet\<close>, after the header is parsed: both detectors, the
  traffic log, and the port list of an entry of \<^verbatim>\<open>ip_investigation_data\<close> that exists.
\<close>

definition analyze_tcp ::
  "monitor \<Rightarrow> ip_info \<Rightarrow> tcp_info \<Rightarrow> real \<Rightarrow> real \<Rightarrow> real \<Rightarrow> monitor" where
  "analyze_tcp s info tcp current_time t_scan t_ddos =
     (let src = source_ip info;
          dport = destination_port tcp;
          s1 = snd (detect_port_scan s src dport t_scan);
          s2 = snd (detect_ddos s1 src t_ddos);
          s3 = s2\<lparr>traffic_history := deque_append 1000 (traffic_history s2)
                    \<lparr> timestamp = current_time, entry_source_ip = src,
                      dest_ip = destination_ip info, dest_port = dport,
                      entry_protocol = ''TCP'', entry_flags = flags tcp \<rparr>\<rparr>
      in case ip_investigation_data s3 src of
           None \<Rightarrow> s3
         | Some d \<Rightarrow>
             if dport \<notin> ports_accessed d
             then s3\<lparr>ip_investigation_data :=
                      (ip_investigation_data s3)
                        (src \<mapsto> d\<lparr>ports_accessed := insert dport (ports_accessed d)\<rparr>)\<rparr>
             else s3)"

text \<open>
  \<^verbatim>\<open>analyze_packet\<close>. \<open>current_time\<close> is its own clock reading, \<open>t_scan\<close> and \<open>t_ddos\<close> are
  the readings of the two detectors it calls.
\<close>

definition analyze_packet :: "monitor \<Rightarrow> byte list \<Rightarrow> real \<Rightarrow> real \<Rightarrow> real \<Rightarrow> monitor" where
  "analyze_packet s0 packet current_time t_scan t_ddos =
     (let s = s0\<lparr>packet_count := packet_count s0 + 1\<rparr> in
      case parse_ip_header packet of
        None \<Rightarrow> s
      | Some info \<Rightarrow>
          let src = source_ip info in
          if src \<in> blocked_ips s then s
          else if src \<in> whitelisted_ips s then
            s\<lparr>connection_tracker :=
                (connection_tracker s)
                  (src \<mapsto> dd_get (connection_tracker s) [] src @ [current_time])\<rparr>
          else
            let s1 = s\<lparr>connection_tracker :=
                         (connection_tracker s)
                           (src \<mapsto> dd_get (connection_tracker s) [] src @ [current_time])\<rparr>;
                s2 = s1\<lparr>connection_tracker :=
                          (connection_tracker s1)
                            (src \<mapsto> filter (\<lambda>t. current_time - t < 60)
                                       (dd_get (connection_tracker s1) [] src))\<rparr>
            in if protocol info = 6 then
                 (case parse_tcp_header packet (header_length info) of
                    None \<Rightarrow> s2
                  | Some tcp \<Rightarrow> analyze_tcp s2 info tcp current_time t_scan t_ddos)
               else s2)"

text \<open>\<^verbatim>\<open>block_ip\<close>: refused for a whitelisted address, and a no-op for a blocked one.\<close>

definition block_ip :: "monitor \<Rightarrow> string \<Rightarrow> real \<Rightarrow> bool \<times> monitor" where
  "block_ip s ip now =
     (if ip \<in> whitelisted_ips s then (False, s)
      else if ip \<notin> blocked_ips s then
        let s1 = s\<lparr>blocked_ips := insert ip (blocked_ips s)\<rparr>;
            s2 = (case ip_investigation_data s1 ip of
                    None \<Rightarrow> s1
                  | Some d \<Rightarrow>
                      add_activity
                        (s1\<lparr>ip_investigation_data :=
                             (ip_investigation_data s1)(ip \<mapsto> d\<lparr>classification := ''malicious''\<rparr>)\<rparr>)
                        ip \<lparr> act_timestamp = now, action = ''IP Blocked'',
                             details = ''Manually blocked by administrator'',
                             severity = ''info'' \<rparr>)
        in (True, s2)
      else (False, s))"

definition whitelist_ip :: "monitor \<Rightarrow> string \<Rightarrow> real \<Rightarrow> bool \<times> monitor" where
  "whitelist_ip s0 ip now =
     (let s = (if ip \<in> blocked_ips s0 then s0\<lparr>blocked_ips := blocked_ips s0 - {ip}\<rparr> else s0) in
      if ip \<notin> whitelisted_ips s then
        let s1 = s\<lparr>whitelisted_ips := insert ip (whitelisted_ips s)\<rparr>;
            s2 = (case ip_investigation_data s1 ip of
                    None \<Rightarrow> s1
                  | Some d \<Rightarrow>
                      add_activity
                        (s1\<lparr>ip_investigation_data :=
                             (ip_investigation_data s1)(ip \<mapsto> d\<lparr>classification := ''benign''\<rparr>)\<rparr>)
                        ip \<lparr> act_timestamp = now, action = ''IP Whitelisted'',
                             details = ''Manually whitelisted by administrator'',
                             severity = ''info'' \<rparr>)
        in (True, s2)
      else (False, s))"

text \<open>
  \<^verbatim>\<open>get_ip_investigation_data\<close>: \<^verbatim>\<open>data\<close> is the stored dict itself, not a copy, so the two
  assignments write into the store; the dict returned is the stored one.
\<close>

definition current_status :: "monitor \<Rightarrow> string \<Rightarrow> string" where
  "current_status s ip =
     (if ip \<in> blocked_ips s then ''blocked''
      else if ip \<in> whitelisted_ips s then ''whitelisted''
      else ''monitoring'')"

definition get_ip_investigation_data ::
  "monitor \<Rightarrow> string \<Rightarrow> real \<Rightarrow> dossier option \<times> monitor" where
  "get_ip_investigation_data s ip now =
     (case ip_investigation_data s ip of
        Some d \<Rightarrow>
          let d' = d\<lparr>status := Some (current_status s ip), last_seen := Some now\<rparr>
          in (Some d', s\<lparr>ip_investigation_data := (ip_investigation_data s)(ip \<mapsto> d')\<rparr>)
      | None \<Rightarrow> (None, s))"

definition update_ip_notes :: "monitor \<Rightarrow> string \<Rightarrow> string \<Rightarrow> real \<Rightarrow> bool \<times> monitor" where
  "update_ip_notes s ip body now =
     (let d = (case ip_investigation_data s ip of
                 None \<Rightarrow> new_dossier now {}
               | Some d0 \<Rightarrow> d0)
      in (True,
          s\<lparr>ip_investigation_data := (ip_investigation_data s)(ip \<mapsto> d\<lparr>dossier_notes := body\<rparr>)\<rparr>))"

subsection \<open>The operations the monitor offers, and runs of them\<close>

text \<open>
  Modelled from the spec: \<^verbatim>\<open>remove_block(addr)\<close> and \<^verbatim>\<open>remove_allow(addr)\<close> of the spec's
  interface have no method in \<^verbatim>\<open>NetworkMonitor\<close>; the spec calls them list mutations, so
  each takes the address out of its list and touches nothing else.
\<close>

definition remove_block :: "monitor \<Rightarrow> string \<Rightarrow> monitor" where
  "remove_block s ip = s\<lparr>blocked_ips := blocked_ips s - {ip}\<rparr>"

definition remove_allow :: "monitor \<Rightarrow> string \<Rightarrow> monitor" where
  "remove_allow s ip = s\<lparr>whitelisted_ips := whitelisted_ips s - {ip}\<rparr>"

text \<open>
  One step of the monitor's life: a packet handed to \<^verbatim>\<open>analyze_packet\<close> (with the three
  clock readings), a call of one of the control methods (with its clock reading), or
  \<^verbatim>\<open>config.update\<close> as \<^verbatim>\<open>main\<close> and \<^verbatim>\<open>apply_configuration\<close> do it.
\<close>

datatype operation =
    Packet "byte list" real real real
  | Block string real
  | Allow string real
  | RemoveBlock string
  | RemoveAllow string
  | Query string real
  | SetNotes string string real
  | Configure config

fun apply_op :: "monitor \<Rightarrow> operation \<Rightarrow> monitor" where
  "apply_op s (Packet p t t1 t2) = analyze_packet s p t t1 t2"
| "apply_op s (Block ip t) = snd (block_ip s ip t)"
| "apply_op s (Allow ip t) = snd (whitelist_ip s ip t)"
| "apply_op s (RemoveBlock ip) = remove_block s ip"
| "apply_op s (RemoveAllow ip) = remove_allow s ip"
| "apply_op s (Query ip t) = snd (get_ip_investigation_data s ip t)"
| "apply_op s (SetNotes ip body t) = snd (update_ip_notes s ip body t)"
| "apply_op s (Configure c) = s\<lparr>config := c\<rparr>"

fun run :: "monitor \<Rightarrow> operation list \<Rightarrow> monitor" where
  "run s [] = s"
| "run s (x # xs) = run (apply_op s x) xs"

text \<open>The source address of a packet, when its IP header decodes.\<close>

definition packet_source :: "byte list \<Rightarrow> string option" where
  "packet_source p = map_option source_ip (parse_ip_header p)"

text \<open>An IPv4 packet of 40 bytes: a 20-byte header and the first 20 bytes of TCP.\<close>

definition tcp_packet :: "byte \<Rightarrow> byte list \<Rightarrow> port \<Rightarrow> byte list" where
  "tcp_packet version_ihl src dport =
     [version_ihl, 0, 0, 40, 0, 0, 0, 0, 64, 6, 0, 0] @ src @ [10, 0, 0, 1] @
     [0, 80, ucast (drop_bit 8 dport), ucast dport] @ replicate 16 0"

subsection \<open>Notions the statements use\<close>

text \<open>No address is on both access lists.\<close>

definition exclusive :: "monitor \<Rightarrow> bool" where
  "exclusive s = (blocked_ips s \<inter> whitelisted_ips s = {})"

text \<open>
  The state of \<^verbatim>\<open>analyze_packet\<close> after its bookkeeping for a source that is neither blocked
  nor whitelisted: the packet is counted, its arrival time is appended to the source's
  list, and the list is cut to the last 60 seconds.
\<close>

definition tracked :: "monitor \<Rightarrow> string \<Rightarrow> real \<Rightarrow> monitor" where
  "tracked s src t =
     s\<lparr>packet_count := packet_count s + 1,
       connection_tracker :=
         (connection_tracker s)
           (src \<mapsto> filter (\<lambda>u. t - u < 60) (dd_get (connection_tracker s) [] src @ [t]))\<rparr>"

text \<open>
  \<open>is_query_of ip x\<close>: the operation \<open>x\<close> is a call of \<^verbatim>\<open>get_ip_investigation_data\<close> for
  \<open>ip\<close>. \<open>keeps_stamps\<close>: every entry of \<^verbatim>\<open>ip_investigation_data\<close> is still there, with the
  \<^verbatim>\<open>status\<close> and \<^verbatim>\<open>last_seen\<close> it had.
\<close>

fun is_query_of :: "string \<Rightarrow> operation \<Rightarrow> bool" where
  "is_query_of ip (Query a t) = (a = ip)"
| "is_query_of ip x = False"

definition keeps_stamps_at :: "string \<Rightarrow> monitor \<Rightarrow> monitor \<Rightarrow> bool" where
  "keeps_stamps_at ip s s' =
     (\<forall>d. ip_investigation_data s ip = Some d \<longrightarrow>
        (\<exists>d'. ip_investigation_data s' ip = Some d' \<and>
              status d' = status d \<and> last_seen d' = last_seen d))"

definition keeps_stamps :: "monitor \<Rightarrow> monitor \<Rightarrow> bool" where
  "keeps_stamps s s' =
     (\<forall>ip d. ip_investigation_data s ip = Some d \<longrightarrow>
        (\<exists>d'. ip_investigation_data s' ip = Some d' \<and>
              status d' = status d \<and> last_seen d' = last_seen d))"

section \<open>The anomaly detector\<close>

text \<open>
  An entry of the traffic handed to \<^verbatim>\<open>analyze_traffic\<close>: a dict read with
  \<^verbatim>\<open>entry.get(key, default)\<close>, so each of the three keys may be missing.
\<close>

record traffic_datum =
  datum_timestamp :: "real option"
  datum_source_ip :: "string option"
  datum_dest_port :: "int option"

text \<open>
  \<^verbatim>\<open>current_metrics\<close>. \<open>ip_counts\<close> is a \<^verbatim>\<open>defaultdict(int)\<close>; a dict keeps its keys in the
  order of their first insertion, so it is a list of pairs with distinct keys.
\<close>

record current_metrics =
  packet_rate :: nat
  connection_count :: nat
  unique_ports :: "int set"
  ip_counts :: "(string \<times> nat) list"

record baseline =
  packet_rate_mean :: real
  packet_rate_std :: real
  connection_count_mean :: real
  connection_count_std :: real
  port_count_mean :: real
  port_count_std :: real

record thresholds =
  packet_rate_std_multiplier :: real
  connection_count_std_multiplier :: real
  unusual_port_threshold :: real
  ip_frequency_std_multiplier :: real

text \<open>
  A piece of formatted text: literal text, or a float printed with \<^verbatim>\<open>:.1f\<close>, whose digits
  are not modelled.
\<close>

datatype piece = Text string | Fixed1 real

text \<open>
  The dict a detector returns. The three global detectors set \<^verbatim>\<open>current_value\<close>; the
  per-address detector sets \<^verbatim>\<open>current_count\<close> and \<^verbatim>\<open>ip_address\<close> instead; only the port
  detector sets \<^verbatim>\<open>unusual_ports\<close>. \<open>anomaly_type\<close> and \<open>anomaly_severity\<close> are the keys
  \<^verbatim>\<open>type\<close> and \<^verbatim>\<open>severity\<close>.
\<close>

record anomaly =
  anomaly_type :: string
  anomaly_severity :: string
  current_value :: "nat option"
  current_count :: "nat option"
  ip_address :: "string option"
  expected_range :: "piece list"
  z_score :: real
  unusual_ports :: "int set option"

record anomaly_alert =
  aa_id :: string
  aa_type :: string
  aa_title :: string
  aa_description :: "piece list"
  aa_timestamp :: real
  aa_source_ip :: string
  aa_destination_ip :: string
  aa_status :: string
  aa_details :: anomaly

text \<open>
  The detector object. The attribute \<^verbatim>\<open>baseline\<close> does not exist until
  \<^verbatim>\<open>establish_baseline\<close> assigns it: \<open>None\<close> stands for the missing attribute, and reading
  it then is an \<^verbatim>\<open>AttributeError\<close>. \<open>detector_alerts\<close> is the attribute \<^verbatim>\<open>alerts\<close>. The unused
  \<^verbatim>\<open>traffic_patterns\<close> is left out.
\<close>

record detector =
  baseline_established :: bool
  baseline_period :: real
  start_time :: real
  detector_alerts :: "anomaly_alert list"
  packet_rates :: "nat list"
  connection_counts :: "nat list"
  port_distributions :: "nat list"
  ip_frequencies :: "(string \<times> nat list) list"
  thresholds :: thresholds
  current_metrics :: current_metrics
  baseline :: "baseline option"

definition empty_metrics :: current_metrics where
  "empty_metrics = \<lparr> packet_rate = 0, connection_count = 0, unique_ports = {}, ip_counts = [] \<rparr>"

text \<open>\<^verbatim>\<open>AnomalyDetector.__init__\<close>, created at clock reading \<open>now\<close>.\<close>

definition init_detector :: "real \<Rightarrow> detector" where
  "init_detector now =
     \<lparr> baseline_established = False, baseline_period = 3600, start_time = now,
       detector_alerts = [], packet_rates = [], connection_counts = [],
       port_distributions = [], ip_frequencies = [],
       thresholds = \<lparr> packet_rate_std_multiplier = 3, connection_count_std_multiplier = 2.5,
                      unusual_port_threshold = 0.05, ip_frequency_std_multiplier = 2 \<rparr>,
       current_metrics = empty_metrics, baseline = None \<rparr>"

subsection \<open>Dicts in insertion order\<close>

fun dict_set :: "'k \<Rightarrow> 'v \<Rightarrow> ('k \<times> 'v) list \<Rightarrow> ('k \<times> 'v) list" where
  "dict_set k v [] = [(k, v)]"
| "dict_set k v ((k', v') # kvs) =
     (if k' = k then (k, v) # kvs else (k', v') # dict_set k v kvs)"

definition dict_get :: "('k \<times> 'v) list \<Rightarrow> 'k \<Rightarrow> 'v \<Rightarrow> 'v" where
  "dict_get kvs k dflt = (case map_of kvs k of None \<Rightarrow> dflt | Some v \<Rightarrow> v)"

subsection \<open>\<^verbatim>\<open>statistics.mean\<close> and \<^verbatim>\<open>statistics.stdev\<close>\<close>

text \<open>
  The arithmetic mean, and the sample standard deviation: the square root of the sum of
  squared deviations from the mean divided by \<open>n - 1\<close>. \<^verbatim>\<open>mean\<close> raises
  \<^verbatim>\<open>StatisticsError\<close> on no data, \<^verbatim>\<open>stdev\<close> on fewer than two points.
\<close>

definition mean_val :: "nat list \<Rightarrow> real" where
  "mean_val xs = real (sum_list xs) / real (length xs)"

definition stdev_val :: "nat list \<Rightarrow> real" where
  "stdev_val xs =
     sqrt ((\<Sum>x\<leftarrow>xs. (real x - mean_val xs)\<^sup>2) / (real (length xs) - 1))"

definition mean :: "nat list \<Rightarrow> py_error + real" where
  "mean xs = (if xs = [] then Inl StatisticsError else Inr (mean_val xs))"

definition stdev :: "nat list \<Rightarrow> py_error + real" where
  "stdev xs = (if length xs < 2 then Inl StatisticsError else Inr (stdev_val xs))"

text \<open>
  The pair \<^verbatim>\<open>statistics.mean(xs)\<close>, \<^verbatim>\<open>statistics.stdev(xs) if len(xs) > 1 else 0\<close>, as
  \<^verbatim>\<open>establish_baseline\<close> and \<^verbatim>\<open>detect_ip_frequency_anomaly\<close> compute it.
\<close>

definition mean_and_std :: "nat list \<Rightarrow> py_error + real \<times> real" where
  "mean_and_std xs =
     (case mean xs of
        Inl e \<Rightarrow> Inl e
      | Inr m \<Rightarrow>
          (case (if length xs > 1 then stdev xs else Inr 0) of
             Inl e \<Rightarrow> Inl e
           | Inr sd \<Rightarrow> Inr (m, sd)))"

subsection \<open>\<^verbatim>\<open>update_metrics\<close>\<close>

text \<open>The body of the loop over the recent entries.\<close>

definition count_entry :: "current_metrics \<Rightarrow> traffic_datum \<Rightarrow> current_metrics" where
  "count_entry m e =
     (let src = (case datum_source_ip e of None \<Rightarrow> [] | Some a \<Rightarrow> a) in
      m\<lparr> packet_rate := packet_rate m + 1,
         connection_count := connection_count m + 1,
         unique_ports :=
           insert (case datum_dest_port e of None \<Rightarrow> 0 | Some p \<Rightarrow> p) (unique_ports m),
         ip_counts := dict_set src (dict_get (ip_counts m) src 0 + 1) (ip_counts m) \<rparr>)"

text \<open>
  The body of the loop over \<^verbatim>\<open>ip_counts.items()\<close>: append to the address's deque, and drop
  its oldest sample when it holds more than 100.
\<close>

definition note_frequency ::
  "(string \<times> nat list) list \<Rightarrow> string \<times> nat \<Rightarrow> (string \<times> nat list) list" where
  "note_frequency freqs kc =
     (let q = dict_get freqs (fst kc) [] @ [snd kc]
      in dict_set (fst kc) (if length q > 100 then tl q else q) freqs)"

definition update_metrics :: "detector \<Rightarrow> traffic_datum list \<Rightarrow> real \<Rightarrow> detector" where
  "update_metrics d traffic_data current_time =
     (let recent_traffic =
            filter (\<lambda>e. current_time - (case datum_timestamp e of None \<Rightarrow> 0 | Some t \<Rightarrow> t) < 60)
              traffic_data;
          m = foldl count_entry empty_metrics recent_traffic
      in d\<lparr> current_metrics := m,
            packet_rates := deque_append 100 (packet_rates d) (packet_rate m),
            connection_counts := deque_append 100 (connection_counts d) (connection_count m),
            port_distributions := deque_append 100 (port_distributions d) (card (unique_ports m)),
            ip_frequencies := foldl note_frequency (ip_frequencies d) (ip_counts m) \<rparr>)"

subsection \<open>\<^verbatim>\<open>establish_baseline\<close>\<close>

text \<open>
  The result of a method that may raise is a pair: the exception or the return value, and
  the object as the method leaves it. The dict of the six statistics is built before it
  is assigned, so an exception leaves the object untouched.
\<close>

definition establish_baseline :: "detector \<Rightarrow> real \<Rightarrow> (py_error + bool) \<times> detector" where
  "establish_baseline d now =
     (if now - start_time d < baseline_period d then (Inr False, d)
      else if length (packet_rates d) < 50 then (Inr False, d)
      else
        (case mean_and_std (packet_rates d) of
           Inl e \<Rightarrow> (Inl e, d)
         | Inr pr \<Rightarrow>
             (case mean_and_std (connection_counts d) of
                Inl e \<Rightarrow> (Inl e, d)
              | Inr cc \<Rightarrow>
                  (case mean_and_std (port_distributions d) of
                     Inl e \<Rightarrow> (Inl e, d)
                   | Inr pd \<Rightarrow>
                       (Inr True,
                        d\<lparr> baseline :=
                             Some \<lparr> packet_rate_mean = fst pr, packet_rate_std = snd pr,
                                    connection_count_mean = fst cc, connection_count_std = snd cc,
                                    port_count_mean = fst pd, port_count_std = snd pd \<rparr>,
                           baseline_established := True \<rparr>)))))"

subsection \<open>The detectors\<close>

definition range_text :: "real \<Rightarrow> real \<Rightarrow> piece list" where
  "range_text m sd = [Fixed1 (m - sd), Text '' - '', Fixed1 (m + sd)]"

definition detect_packet_rate_anomaly :: "detector \<Rightarrow> py_error + anomaly option" where
  "detect_packet_rate_anomaly d =
     (if \<not> baseline_established d then Inr None
      else
        (case baseline d of
           None \<Rightarrow> Inl AttributeError
         | Some b \<Rightarrow>
             let current_rate = packet_rate (current_metrics d);
                 m = packet_rate_mean b;
                 sd = packet_rate_std b
             in if sd = 0 then Inr None
                else
                  let z = \<bar>real current_rate - m\<bar> / sd;
                      threshold = packet_rate_std_multiplier (thresholds d)
                  in if z > threshold then
                       Inr (Some \<lparr> anomaly_type = ''packet_rate_anomaly'',
                                   anomaly_severity =
                                     (if z > threshold * 1.5 then ''high'' else ''medium''),
                                   current_value = Some current_rate,
                                   current_count = None, ip_address = None,
                                   expected_range = range_text m sd,
                                   z_score = z, unusual_ports = None \<rparr>)
                     else Inr None))"

definition detect_connection_anomaly :: "detector \<Rightarrow> py_error + anomaly option" where
  "detect_connection_anomaly d =
     (if \<not> baseline_established d then Inr None
      else
        (case baseline d of
           None \<Rightarrow> Inl AttributeError
         | Some b \<Rightarrow>
             let current_cnt = connection_count (current_metrics d);
                 m = connection_count_mean b;
                 sd = connection_count_std b
             in if sd = 0 then Inr None
                else
                  let z = \<bar>real current_cnt - m\<bar> / sd;
                      threshold = connection_count_std_multiplier (thresholds d)
                  in if z > threshold then
                       Inr (Some \<lparr> anomaly_type = ''connection_anomaly'',
                                   anomaly_severity =
                                     (if z > threshold * 1.5 then ''high'' else ''medium''),
                                   current_value = Some current_cnt,
                                   current_count = None, ip_address = None,
                                   expected_range = range_text m sd,
                                   z_score = z, unusual_ports = None \<rparr>)
                     else Inr None))"

definition detect_port_anomaly :: "detector \<Rightarrow> py_error + anomaly option" where
  "detect_port_anomaly d =
     (if \<not> baseline_established d then Inr None
      else
        (case baseline d of
           None \<Rightarrow> Inl AttributeError
         | Some b \<Rightarrow>
             let current_ports = card (unique_ports (current_metrics d));
                 m = port_count_mean b;
                 sd = port_count_std b
             in if sd = 0 then Inr None
                else
                  let z = \<bar>real current_ports - m\<bar> / sd;
                      threshold = connection_count_std_multiplier (thresholds d)
                  in if z > threshold then
                       Inr (Some \<lparr> anomaly_type = ''port_usage_anomaly'',
                                   anomaly_severity =
                                     (if z > threshold * 1.2 then ''medium'' else ''low''),
                                   current_value = Some current_ports,
                                   current_count = None, ip_address = None,
                                   expected_range = range_text m sd,
                                   z_score = z,
                                   unusual_ports = Some (unique_ports (current_metrics d)) \<rparr>)
                     else Inr None))"

text \<open>
  \<^verbatim>\<open>detect_ip_frequency_anomaly\<close>: the loop over \<^verbatim>\<open>ip_frequencies.items()\<close>, collecting the
  anomalies in order. The method returns \<^verbatim>\<open>None\<close> for an empty list, and its caller
  extends the list of anomalies only by a non-empty one: the list itself says the same.
\<close>

fun ip_frequency_loop ::
  "detector \<Rightarrow> (string \<times> nat list) list \<Rightarrow> py_error + anomaly list" where
  "ip_frequency_loop d [] = Inr []"
| "ip_frequency_loop d ((ip, counts) # rest) =
     (if length counts < 10 then ip_frequency_loop d rest
      else
        (case mean_and_std counts of
           Inl e \<Rightarrow> Inl e
         | Inr ms \<Rightarrow>
             if snd ms = 0 then ip_frequency_loop d rest
             else
               let cur = dict_get (ip_counts (current_metrics d)) ip 0;
                   z = \<bar>real cur - fst ms\<bar> / snd ms;
                   threshold = ip_frequency_std_multiplier (thresholds d)
               in if z > threshold then
                    (case ip_frequency_loop d rest of
                       Inl e \<Rightarrow> Inl e
                     | Inr found \<Rightarrow>
                         Inr (\<lparr> anomaly_type = ''ip_frequency_anomaly'',
                                 anomaly_severity =
                                   (if z > threshold * 1.5 then ''high'' else ''medium''),
                                 current_value = None,
                                 current_count = Some cur, ip_address = Some ip,
                                 expected_range = range_text (fst ms) (snd ms),
                                 z_score = z, unusual_ports = None \<rparr> # found))
                  else ip_frequency_loop d rest))"

definition detect_ip_frequency_anomaly :: "detector \<Rightarrow> py_error + anomaly list" where
  "detect_ip_frequency_anomaly d = ip_frequency_loop d (ip_frequencies d)"

subsection \<open>\<^verbatim>\<open>create_alert\<close> and \<^verbatim>\<open>analyze_traffic\<close>\<close>

text \<open>
  \<^verbatim>\<open>create_alert\<close> builds \<^verbatim>\<open>description_map\<close> as a dict literal, so all four descriptions
  are evaluated, whatever the type of the anomaly. The first reads
  \<^verbatim>\<open>anomaly['current_value']\<close>: for a dict without that key this is a \<^verbatim>\<open>KeyError\<close>.
\<close>

definition create_alert :: "anomaly \<Rightarrow> real \<Rightarrow> py_error + anomaly_alert" where
  "create_alert a now =
     (case current_value a of
        None \<Rightarrow> Inl KeyError
      | Some v \<Rightarrow>
          let ip = (case ip_address a of None \<Rightarrow> ''unknown'' | Some x \<Rightarrow> x);
              ty = anomaly_type a
          in Inr \<lparr> aa_id = ''anomaly_'' @ str_int (py_int now) @ ''_'' @ ty,
                   aa_type = anomaly_severity a,
                   aa_title =
                     (if ty = ''packet_rate_anomaly'' then ''Unusual Packet Rate Detected''
                      else if ty = ''connection_anomaly'' then ''Abnormal Connection Pattern''
                      else if ty = ''port_usage_anomaly'' then ''Unusual Port Usage Pattern''
                      else if ty = ''ip_frequency_anomaly'' then ''Abnormal IP Traffic Frequency''
                      else ''Network Anomaly Detected''),
                   aa_description =
                     (if ty = ''packet_rate_anomaly'' then
                        [Text (''Packet rate ('' @ str_nat v @
                               '') significantly differs from baseline ('')] @
                        expected_range a @ [Text '')'']
                      else if ty = ''connection_anomaly'' then
                        [Text (''Connection count ('' @ str_nat v @
                               '') outside normal range ('')] @
                        expected_range a @ [Text '')'']
                      else if ty = ''port_usage_anomaly'' then
                        [Text (''Port usage pattern ('' @ str_nat v @
                               '' unique ports) deviates from baseline'')]
                      else if ty = ''ip_frequency_anomaly'' then
                        [Text (''IP '' @ ip @ '' showing unusual traffic frequency'')]
                      else [Text ''Unusual network behavior detected'']),
                   aa_timestamp = now,
                   aa_source_ip = (case ip_address a of None \<Rightarrow> ''multiple'' | Some x \<Rightarrow> x),
                   aa_destination_ip = ''multiple'',
                   aa_status = ''active'',
                   aa_details = a \<rparr>)"

text \<open>The loop that turns the anomalies into alerts; it stops at the first exception.\<close>

fun add_alerts :: "detector \<Rightarrow> anomaly list \<Rightarrow> real \<Rightarrow> (py_error + unit) \<times> detector" where
  "add_alerts d [] now = (Inr (), d)"
| "add_alerts d (a # rest) now =
     (case create_alert a now of
        Inl e \<Rightarrow> (Inl e, d)
      | Inr al \<Rightarrow> add_alerts (d\<lparr>detector_alerts := detector_alerts d @ [al]\<rparr>) rest now)"

definition opt_list :: "'a option \<Rightarrow> 'a list" where
  "opt_list x = (case x of None \<Rightarrow> [] | Some v \<Rightarrow> [v])"

text \<open>
  \<^verbatim>\<open>analyze_traffic\<close>. \<open>t_metrics\<close>, \<open>t_baseline\<close> and \<open>t_alert\<close> are the clock readings of
  \<^verbatim>\<open>update_metrics\<close>, \<^verbatim>\<open>establish_baseline\<close> and \<^verbatim>\<open>create_alert\<close>; the alerts of one call
  are stamped with one reading.
\<close>

definition analyze_traffic ::
  "detector \<Rightarrow> traffic_datum list \<Rightarrow> real \<Rightarrow> real \<Rightarrow> real \<Rightarrow> (py_error + anomaly list) \<times> detector"
  where
  "analyze_traffic d0 traffic_data t_metrics t_baseline t_alert =
     (let d = update_metrics d0 traffic_data t_metrics in
      if \<not> baseline_established d then
        (case establish_baseline d t_baseline of
           (Inl e, d') \<Rightarrow> (Inl e, d')
         | (Inr b, d') \<Rightarrow> (Inr [], d'))
      else
        (case detect_packet_rate_anomaly d of
           Inl e \<Rightarrow> (Inl e, d)
         | Inr packet_anomaly \<Rightarrow>
             (case detect_connection_anomaly d of
                Inl e \<Rightarrow> (Inl e, d)
              | Inr connection_anomaly \<Rightarrow>
                  (case detect_port_anomaly d of
                     Inl e \<Rightarrow> (Inl e, d)
                   | Inr port_anomaly \<Rightarrow>
                       (case detect_ip_frequency_anomaly d of
                          Inl e \<Rightarrow> (Inl e, d)
                        | Inr ip_anomalies \<Rightarrow>
                            let anomalies =
                                  opt_list packet_anomaly @ opt_list connection_anomaly @
                                  opt_list port_anomaly @ ip_anomalies
                            in (case add_alerts d anomalies t_alert of
                                  (Inl e, d') \<Rightarrow> (Inl e, d')
                                | (Inr u, d') \<Rightarrow> (Inr anomalies, d')))))))"

text \<open>
  A tick is one call of \<^verbatim>\<open>analyze_traffic\<close> with its traffic and clock readings. The worker
  that drives the detector catches every exception and goes on, so a run continues from
  the object as the failed call left it.
\<close>

type_synonym tick = "traffic_datum list \<times> real \<times> real \<times> real"

fun run_ticks :: "detector \<Rightarrow> tick list \<Rightarrow> detector" where
  "run_ticks d [] = d"
| "run_ticks d ((traffic_data, t_metrics, t_baseline, t_alert) # rest) =
     run_ticks (snd (analyze_traffic d traffic_data t_metrics t_baseline t_alert)) rest"

text \<open>
  What holds of every detector a run can reach: the three series have the same length,
  the flag \<open>baseline_established\<close> is set exactly when the attribute \<^verbatim>\<open>baseline\<close> exists, and
  no standard deviation of a baseline is negative.
\<close>

definition wf_detector :: "detector \<Rightarrow> bool" where
  "wf_detector d =
     (length (connection_counts d) = length (packet_rates d) \<and>
      length (port_distributions d) = length (packet_rates d) \<and>
      (case baseline d of
         None \<Rightarrow> \<not> baseline_established d
       | Some b \<Rightarrow>
           baseline_established d \<and> 0 \<le> packet_rate_std b \<and>
           0 \<le> connection_count_std b \<and> 0 \<le> port_count_std b))"

text \<open>The baseline \<^verbatim>\<open>establish_baseline\<close> computes from the three series.\<close>

definition baseline_of :: "detector \<Rightarrow> baseline" where
  "baseline_of d =
     \<lparr> packet_rate_mean = mean_val (packet_rates d),
       packet_rate_std = stdev_val (packet_rates d),
       connection_count_mean = mean_val (connection_counts d),
       connection_count_std = stdev_val (connection_counts d),
       port_count_mean = mean_val (port_distributions d),
       port_count_std = stdev_val (port_distributions d) \<rparr>"

text \<open>
  \<open>outside_band c m k sd\<close>: the value \<open>c\<close> lies outside the band from \<open>m - k * sd\<close> to
  \<open>m + k * sd\<close>.
\<close>

definition outside_band :: "real \<Rightarrow> real \<Rightarrow> real \<Rightarrow> real \<Rightarrow> bool" where
  "outside_band c m k sd = (c < m - k * sd \<or> m + k * sd < c)"

text \<open>
  \<open>exceeds c m sd k\<close>: the standard deviation is positive and the z-score
  \<open>\<bar>c - m\<bar> / sd\<close> is above the multiplier \<open>k\<close>. \<open>detected r\<close>: the detection a detector
  returned, as a list of at most one element.
\<close>

definition exceeds :: "real \<Rightarrow> real \<Rightarrow> real \<Rightarrow> real \<Rightarrow> bool" where
  "exceeds c m sd k = (0 < sd \<and> k < \<bar>c - m\<bar> / sd)"

definition detected :: "py_error + anomaly option \<Rightarrow> anomaly list" where
  "detected r = (case r of Inl e \<Rightarrow> [] | Inr x \<Rightarrow> opt_list x)"

section \<open>Properties of the decoder and the monitor\<close>

subsection \<open>What the helpers leave alone\<close>

lemma add_activity_fields [simp]:
  "blocked_ips (add_activity s ip a) = blocked_ips s"
  "whitelisted_ips (add_activity s ip a) = whitelisted_ips s"
  "alerts (add_activity s ip a) = alerts s"
  "config (add_activity s ip a) = config s"
  "connection_tracker (add_activity s ip a) = connection_tracker s"
  "port_scan_tracker (add_activity s ip a) = port_scan_tracker s"
  "traffic_history (add_activity s ip a) = traffic_history s"
  "packet_count (add_activity s ip a) = packet_count s"
  "suspicious_packets (add_activity s ip a) = suspicious_packets s"
  by (simp_all add: add_activity_def split: option.splits)

lemma auto_block_ip_fields [simp]:
  "whitelisted_ips (auto_block_ip s ip) = whitelisted_ips s"
  "alerts (auto_block_ip s ip) = alerts s"
  "config (auto_block_ip s ip) = config s"
  "connection_tracker (auto_block_ip s ip) = connection_tracker s"
  "port_scan_tracker (auto_block_ip s ip) = port_scan_tracker s"
  "traffic_history (auto_block_ip s ip) = traffic_history s"
  "packet_count (auto_block_ip s ip) = packet_count s"
  "suspicious_packets (auto_block_ip s ip) = suspicious_packets s"
  "ip_investigation_data (auto_block_ip s ip) = ip_investigation_data s"
  by (simp_all add: auto_block_ip_def)

lemma auto_block_ip_blocked:
  "blocked_ips (auto_block_ip s ip) =
     (if auto_block (config s) \<and> ip \<notin> whitelisted_ips s then insert ip (blocked_ips s)
      else blocked_ips s)"
  by (simp add: auto_block_ip_def)

subsection \<open>The decoder\<close>

lemma parse_ip_header_body_short:
  "parse_ip_header_body p = Inl StructError \<longleftrightarrow> length p < 20"
  by (auto simp: parse_ip_header_body_def Let_def)

lemma parse_ip_header_None_iff: "parse_ip_header p = None \<longleftrightarrow> length p < 20"
  by (auto simp: parse_ip_header_def parse_ip_header_body_def Let_def split: sum.splits)

lemma and_15_mod: "(n::nat) AND 0xF = n mod 16"
proof -
  have m: "(0xF::nat) = mask 4" by (simp add: mask_eq_exp_minus_1)
  have "n AND mask 4 = n mod 2 ^ 4"
    by (simp only: take_bit_eq_mask [symmetric] take_bit_eq_mod)
  then show ?thesis unfolding m by simp
qed

lemma parse_ip_header_Some:
  "parse_ip_header packet = Some info \<Longrightarrow>
     20 \<le> length packet \<and>
     version info = unat (packet ! 0) div 16 \<and>
     header_length info = 4 * (unat (packet ! 0) mod 16) \<and>
     ttl info = unat (packet ! 8) \<and>
     protocol info = unat (packet ! 9)"
  by (auto simp: parse_ip_header_def parse_ip_header_body_def Let_def drop_bit_eq_div
      and_15_mod split: sum.splits if_splits)

text \<open>
  Claim C5, as amended. For every byte sequence, \<open>parse_ip_header\<close> fails exactly when
  fewer than 20 bytes are given; the failure is the \<^verbatim>\<open>struct.error\<close> of the unpack, caught
  and turned into \<^verbatim>\<open>None\<close>, so nothing is thrown. A header that decodes is returned with
  the version (upper nibble of byte 0) and the header length (four times the lower
  nibble) it carries, whatever they are: neither is checked.
\<close>

theorem decoder_accepts_any_20_bytes:
  "(parse_ip_header packet = None \<longleftrightarrow> length packet < 20) \<and>
   (parse_ip_header packet = None \<longleftrightarrow> parse_ip_header_body packet = Inl StructError) \<and>
   (case parse_ip_header packet of
      None \<Rightarrow> True
    | Some info \<Rightarrow>
        version info = unat (packet ! 0) div 16 \<and>
        header_length info = 4 * (unat (packet ! 0) mod 16) \<and>
        ttl info = unat (packet ! 8) \<and>
        protocol info = unat (packet ! 9))"
proof (intro conjI)
  show "parse_ip_header packet = None \<longleftrightarrow> length packet < 20"
    by (rule parse_ip_header_None_iff)
  show "parse_ip_header packet = None \<longleftrightarrow> parse_ip_header_body packet = Inl StructError"
    by (simp add: parse_ip_header_None_iff parse_ip_header_body_short)
  show "case parse_ip_header packet of
      None \<Rightarrow> True
    | Some info \<Rightarrow>
        version info = unat (packet ! 0) div 16 \<and>
        header_length info = 4 * (unat (packet ! 0) mod 16) \<and>
        ttl info = unat (packet ! 8) \<and>
        protocol info = unat (packet ! 9)"
    using parse_ip_header_Some [of packet] by (simp split: option.splits)
qed

text \<open>
  Claim C5 as stated fails: a 20-byte input whose first byte is \<open>0x60\<close> (version 6,
  IHL 0) is not rejected. It decodes, with version 6 and header length 0.
\<close>

theorem decoder_rejects_counterexample:
  "length (0x60 # replicate 19 (0::byte)) = 20 \<and>
   drop_bit 4 (0x60::byte) = 6 \<and> (0x60::byte) AND 0xF = 0 \<and>
   map_option version (parse_ip_header (0x60 # replicate 19 0)) = Some 6 \<and>
   map_option header_length (parse_ip_header (0x60 # replicate 19 0)) = Some 0"
  by code_simp

subsection \<open>What the detectors change\<close>

lemma add_activity_dossier:
  "ip_investigation_data (add_activity s a act) ip =
     (if ip = a then map_option (\<lambda>d. d\<lparr>activities := activities d @ [act]\<rparr>) (ip_investigation_data s ip)
      else ip_investigation_data s ip)"
  by (simp add: add_activity_def split: option.splits)

lemma detect_port_scan_fired:
  "fst (detect_port_scan s src p t) \<longleftrightarrow>
     src \<notin> whitelisted_ips s \<and>
     int (card (insert p (dd_get (port_scan_tracker s) {} src))) > port_scan_threshold (config s)"
  by (simp add: detect_port_scan_def Let_def)

lemma detect_port_scan_alerts:
  "alerts (snd (detect_port_scan s src p t)) =
     alerts s @ (if fst (detect_port_scan s src p t)
                 then [port_scan_alert src (card (insert p (dd_get (port_scan_tracker s) {} src))) t]
                 else [])"
  by (simp add: detect_port_scan_def Let_def)

lemma detect_port_scan_tracker:
  "port_scan_tracker (snd (detect_port_scan s src p t)) =
     (if src \<in> whitelisted_ips s then port_scan_tracker s
      else (port_scan_tracker s)(src \<mapsto> insert p (dd_get (port_scan_tracker s) {} src)))"
  by (simp add: detect_port_scan_def Let_def)

lemma detect_port_scan_frame [simp]:
  "connection_tracker (snd (detect_port_scan s src p t)) = connection_tracker s"
  "traffic_history (snd (detect_port_scan s src p t)) = traffic_history s"
  "config (snd (detect_port_scan s src p t)) = config s"
  "packet_count (snd (detect_port_scan s src p t)) = packet_count s"
  "whitelisted_ips (snd (detect_port_scan s src p t)) = whitelisted_ips s"
  by (simp_all add: detect_port_scan_def Let_def)

lemma detect_port_scan_blocked:
  "blocked_ips (snd (detect_port_scan s src p t)) =
     (if fst (detect_port_scan s src p t) \<and> auto_block (config s)
      then insert src (blocked_ips s) else blocked_ips s)"
  by (auto simp: detect_port_scan_def Let_def auto_block_ip_blocked)

lemma detect_port_scan_dossier:
  "ip_investigation_data (snd (detect_port_scan s src p t)) ip =
     (if ip = src \<and> fst (detect_port_scan s src p t) then
        Some ((case ip_investigation_data s src of
                 None \<Rightarrow> new_dossier t (insert p (dd_get (port_scan_tracker s) {} src))
               | Some d \<Rightarrow> d)
              \<lparr>activities :=
                 activities (case ip_investigation_data s src of
                               None \<Rightarrow> new_dossier t (insert p (dd_get (port_scan_tracker s) {} src))
                             | Some d \<Rightarrow> d) @
                 [\<lparr> act_timestamp = t, action = ''Port Scan Detected'',
                    details = ''Accessed '' @
                      str_nat (card (insert p (dd_get (port_scan_tracker s) {} src))) @
                      '' different ports'',
                    severity = ''high'' \<rparr>]\<rparr>)
      else ip_investigation_data s ip)"
  by (auto simp: detect_port_scan_def Let_def add_activity_dossier split: option.splits)

lemma detect_ddos_fired:
  "fst (detect_ddos s src t) \<longleftrightarrow>
     src \<notin> whitelisted_ips s \<and>
     int (length (recent_packets s src t)) > ddos_threshold (config s)"
  by (simp add: detect_ddos_def Let_def)

lemma detect_ddos_alerts:
  "alerts (snd (detect_ddos s src t)) =
     alerts s @ (if fst (detect_ddos s src t)
                 then [ddos_alert src (length (recent_packets s src t)) t] else [])"
  by (simp add: detect_ddos_def Let_def)

lemma detect_ddos_tracker:
  "dd_get (connection_tracker (snd (detect_ddos s src t))) [] ip = dd_get (connection_tracker s) [] ip"
  by (simp add: detect_ddos_def Let_def dd_get_def split: option.splits)

lemma detect_ddos_tracker_other:
  "ip \<noteq> src \<Longrightarrow> connection_tracker (snd (detect_ddos s src t)) ip = connection_tracker s ip"
  by (simp add: detect_ddos_def Let_def)

lemma detect_ddos_frame [simp]:
  "port_scan_tracker (snd (detect_ddos s src t)) = port_scan_tracker s"
  "traffic_history (snd (detect_ddos s src t)) = traffic_history s"
  "config (snd (detect_ddos s src t)) = config s"
  "packet_count (snd (detect_ddos s src t)) = packet_count s"
  "whitelisted_ips (snd (detect_ddos s src t)) = whitelisted_ips s"
  by (simp_all add: detect_ddos_def Let_def)

lemma detect_ddos_blocked:
  "blocked_ips (snd (detect_ddos s src t)) =
     (if fst (detect_ddos s src t) \<and> auto_block (config s)
      then insert src (blocked_ips s) else blocked_ips s)"
  by (auto simp: detect_ddos_def Let_def auto_block_ip_blocked)

lemma detect_ddos_dossier:
  "ip_investigation_data (snd (detect_ddos s src t)) ip =
     (if ip = src \<and> fst (detect_ddos s src t) then
        Some ((case ip_investigation_data s src of
                 None \<Rightarrow> new_dossier t {} | Some d \<Rightarrow> d)
              \<lparr>activities :=
                 activities (case ip_investigation_data s src of
                               None \<Rightarrow> new_dossier t {} | Some d \<Rightarrow> d) @
                 [\<lparr> act_timestamp = t, action = ''DDoS Attack Detected'',
                    details = ''Sent '' @ str_nat (length (recent_packets s src t)) @
                      '' packets in 1 second'',
                    severity = ''high'' \<rparr>]\<rparr>)
      else ip_investigation_data s ip)"
  by (auto simp: detect_ddos_def Let_def add_activity_dossier split: option.splits)

subsection \<open>Entries stay, with their \<^verbatim>\<open>status\<close> and \<^verbatim>\<open>last_seen\<close>\<close>

lemma keeps_stamps_refl: "keeps_stamps s s"
  by (simp add: keeps_stamps_def)

lemma keeps_stamps_trans: "keeps_stamps s s1 \<Longrightarrow> keeps_stamps s1 s2 \<Longrightarrow> keeps_stamps s s2"
  unfolding keeps_stamps_def by (metis (no_types, lifting))

lemma keeps_stamps_same: "ip_investigation_data s' = ip_investigation_data s \<Longrightarrow> keeps_stamps s s'"
  by (simp add: keeps_stamps_def)

lemma keeps_stamps_dom: "keeps_stamps s s' \<Longrightarrow> dom (ip_investigation_data s) \<subseteq> dom (ip_investigation_data s')"
  unfolding keeps_stamps_def by fastforce

lemma detect_port_scan_stamps: "keeps_stamps s (snd (detect_port_scan s src p t))"
  unfolding keeps_stamps_def by (auto simp: detect_port_scan_dossier)

lemma detect_ddos_stamps: "keeps_stamps s (snd (detect_ddos s src t))"
  unfolding keeps_stamps_def by (auto simp: detect_ddos_dossier)

text \<open>The state after both detectors, as \<open>analyze_tcp\<close> threads it.\<close>

lemma analyze_tcp_dossier:
  "ip_investigation_data (analyze_tcp s info tcp t t1 t2) ip =
     (let s2 = snd (detect_ddos (snd (detect_port_scan s (source_ip info) (destination_port tcp) t1))
                     (source_ip info) t2)
      in if ip = source_ip info
         then map_option (\<lambda>d. d\<lparr>ports_accessed := insert (destination_port tcp) (ports_accessed d)\<rparr>)
                (ip_investigation_data s2 ip)
         else ip_investigation_data s2 ip)"
  by (auto simp: analyze_tcp_def Let_def insert_absorb split: option.splits)

lemma analyze_tcp_stamps: "keeps_stamps s (analyze_tcp s info tcp t t1 t2)"
proof -
  let ?s1 = "snd (detect_port_scan s (source_ip info) (destination_port tcp) t1)"
  let ?s2 = "snd (detect_ddos ?s1 (source_ip info) t2)"
  have "keeps_stamps s ?s2"
    using detect_port_scan_stamps detect_ddos_stamps by (rule keeps_stamps_trans)
  moreover have "keeps_stamps ?s2 (analyze_tcp s info tcp t t1 t2)"
    unfolding keeps_stamps_def by (auto simp: analyze_tcp_dossier Let_def)
  ultimately show ?thesis by (rule keeps_stamps_trans)
qed

lemma analyze_tcp_alerts:
  "alerts (analyze_tcp s info tcp t t1 t2) =
     alerts (snd (detect_ddos (snd (detect_port_scan s (source_ip info) (destination_port tcp) t1))
                   (source_ip info) t2))"
  by (simp add: analyze_tcp_def Let_def split: option.splits)

lemma analyze_tcp_dom:
  "dom (ip_investigation_data (analyze_tcp s info tcp t t1 t2)) =
     dom (ip_investigation_data s) \<union>
       (if alerts (analyze_tcp s info tcp t t1 t2) \<noteq> alerts s then {source_ip info} else {})"
proof -
  let ?s1 = "snd (detect_port_scan s (source_ip info) (destination_port tcp) t1)"
  let ?s2 = "snd (detect_ddos ?s1 (source_ip info) t2)"
  have d: "dom (ip_investigation_data (analyze_tcp s info tcp t t1 t2)) = dom (ip_investigation_data ?s2)"
    by (auto simp: analyze_tcp_dossier Let_def domIff split: if_splits)
  have d2: "dom (ip_investigation_data ?s2) =
      dom (ip_investigation_data ?s1) \<union> (if fst (detect_ddos ?s1 (source_ip info) t2) then {source_ip info} else {})"
    by (auto simp: detect_ddos_dossier domIff split: if_splits)
  have d1: "dom (ip_investigation_data ?s1) =
      dom (ip_investigation_data s) \<union>
        (if fst (detect_port_scan s (source_ip info) (destination_port tcp) t1) then {source_ip info} else {})"
    by (auto simp: detect_port_scan_dossier domIff split: if_splits)
  have a: "alerts (analyze_tcp s info tcp t t1 t2) \<noteq> alerts s \<longleftrightarrow>
      fst (detect_port_scan s (source_ip info) (destination_port tcp) t1) \<or>
      fst (detect_ddos ?s1 (source_ip info) t2)"
    by (simp add: analyze_tcp_alerts detect_ddos_alerts detect_port_scan_alerts)
  show ?thesis unfolding d d2 d1 a by auto
qed

lemma analyze_tcp_frame [simp]:
  "whitelisted_ips (analyze_tcp s info tcp t t1 t2) = whitelisted_ips s"
  "config (analyze_tcp s info tcp t t1 t2) = config s"
  "packet_count (analyze_tcp s info tcp t t1 t2) = packet_count s"
  by (simp_all add: analyze_tcp_def Let_def split: option.splits)

lemma analyze_tcp_tracker_eq:
  "connection_tracker (analyze_tcp s info tcp t t1 t2) =
     connection_tracker
       (snd (detect_ddos (snd (detect_port_scan s (source_ip info) (destination_port tcp) t1))
              (source_ip info) t2))"
  by (simp add: analyze_tcp_def Let_def split: option.splits)

lemma analyze_tcp_tracker:
  "dd_get (connection_tracker (analyze_tcp s info tcp t t1 t2)) [] ip = dd_get (connection_tracker s) [] ip"
  by (simp only: analyze_tcp_tracker_eq detect_ddos_tracker detect_port_scan_frame)

lemma analyze_tcp_tracker_other:
  "ip \<noteq> source_ip info \<Longrightarrow>
     connection_tracker (analyze_tcp s info tcp t t1 t2) ip = connection_tracker s ip"
  by (simp add: analyze_tcp_tracker_eq detect_ddos_tracker_other)

lemma analyze_tcp_history:
  "traffic_history (analyze_tcp s info tcp t t1 t2) =
     deque_append 1000 (traffic_history s)
       \<lparr> timestamp = t, entry_source_ip = source_ip info, dest_ip = destination_ip info,
         dest_port = destination_port tcp, entry_protocol = ''TCP'', entry_flags = flags tcp \<rparr>"
  by (simp add: analyze_tcp_def Let_def split: option.splits)

subsection \<open>The ways through \<^verbatim>\<open>analyze_packet\<close>\<close>

lemma analyze_packet_undecoded:
  "parse_ip_header p = None \<Longrightarrow>
     analyze_packet s p t t1 t2 = s\<lparr>packet_count := packet_count s + 1\<rparr>"
  by (simp add: analyze_packet_def)

lemma analyze_packet_blocked:
  "parse_ip_header p = Some info \<Longrightarrow> source_ip info \<in> blocked_ips s \<Longrightarrow>
     analyze_packet s p t t1 t2 = s\<lparr>packet_count := packet_count s + 1\<rparr>"
  by (simp add: analyze_packet_def)

lemma analyze_packet_whitelisted:
  "parse_ip_header p = Some info \<Longrightarrow> source_ip info \<notin> blocked_ips s \<Longrightarrow>
   source_ip info \<in> whitelisted_ips s \<Longrightarrow>
     analyze_packet s p t t1 t2 =
       s\<lparr>packet_count := packet_count s + 1,
         connection_tracker :=
           (connection_tracker s)
             (source_ip info \<mapsto> dd_get (connection_tracker s) [] (source_ip info) @ [t])\<rparr>"
  by (simp add: analyze_packet_def Let_def)

lemma analyze_packet_accepted:
  "parse_ip_header p = Some info \<Longrightarrow> source_ip info \<notin> blocked_ips s \<Longrightarrow>
   source_ip info \<notin> whitelisted_ips s \<Longrightarrow>
     analyze_packet s p t t1 t2 =
       (if protocol info = 6 then
          (case parse_tcp_header p (header_length info) of
             None \<Rightarrow> tracked s (source_ip info) t
           | Some tcp \<Rightarrow> analyze_tcp (tracked s (source_ip info) t) info tcp t t1 t2)
        else tracked s (source_ip info) t)"
  by (simp add: analyze_packet_def tracked_def Let_def dd_get_def cong: option.case_cong)

lemma tracked_frame [simp]:
  "ip_investigation_data (tracked s src t) = ip_investigation_data s"
  "alerts (tracked s src t) = alerts s"
  "blocked_ips (tracked s src t) = blocked_ips s"
  "whitelisted_ips (tracked s src t) = whitelisted_ips s"
  "traffic_history (tracked s src t) = traffic_history s"
  "port_scan_tracker (tracked s src t) = port_scan_tracker s"
  "config (tracked s src t) = config s"
  "packet_count (tracked s src t) = packet_count s + 1"
  by (simp_all add: tracked_def)

lemma tracked_tracker:
  "dd_get (connection_tracker (tracked s src t)) [] ip =
     (if ip = src then filter (\<lambda>u. t - u < 60) (dd_get (connection_tracker s) [] src @ [t])
      else dd_get (connection_tracker s) [] ip)"
  by (simp add: tracked_def dd_get_def)

text \<open>The four ways a packet leaves \<open>analyze_packet\<close>.\<close>

lemma analyze_packet_cases:
  obtains (dropped) "analyze_packet s p t t1 t2 = s\<lparr>packet_count := packet_count s + 1\<rparr>"
  | (whitelisted) info where "parse_ip_header p = Some info" "source_ip info \<notin> blocked_ips s"
      "source_ip info \<in> whitelisted_ips s"
      "analyze_packet s p t t1 t2 =
         s\<lparr>packet_count := packet_count s + 1,
           connection_tracker :=
             (connection_tracker s)
               (source_ip info \<mapsto> dd_get (connection_tracker s) [] (source_ip info) @ [t])\<rparr>"
  | (other) info where "parse_ip_header p = Some info" "source_ip info \<notin> blocked_ips s"
      "source_ip info \<notin> whitelisted_ips s"
      "analyze_packet s p t t1 t2 = tracked s (source_ip info) t"
  | (tcp) info tcp where "parse_ip_header p = Some info" "source_ip info \<notin> blocked_ips s"
      "source_ip info \<notin> whitelisted_ips s" "protocol info = 6"
      "parse_tcp_header p (header_length info) = Some tcp"
      "analyze_packet s p t t1 t2 = analyze_tcp (tracked s (source_ip info) t) info tcp t t1 t2"
proof (cases "parse_ip_header p")
  case None
  then show ?thesis using dropped analyze_packet_undecoded by blast
next
  case (Some info)
  show ?thesis
  proof (cases "source_ip info \<in> blocked_ips s")
    case True
    then show ?thesis using dropped analyze_packet_blocked Some by blast
  next
    case nb: False
    show ?thesis
    proof (cases "source_ip info \<in> whitelisted_ips s")
      case True
      then show ?thesis using whitelisted analyze_packet_whitelisted Some nb by blast
    next
      case nw: False
      note acc = analyze_packet_accepted [OF Some nb nw, of t t1 t2]
      show ?thesis
      proof (cases "protocol info = 6")
        case False
        then show ?thesis using other [OF Some nb nw] acc by simp
      next
        case True
        show ?thesis
        proof (cases "parse_tcp_header p (header_length info)")
          case None
          then show ?thesis using other [OF Some nb nw] acc True by simp
        next
          case (Some tcp')
          then show ?thesis using tcp [OF \<open>parse_ip_header p = Some info\<close> nb nw True Some] acc True by simp
        qed
      qed
    qed
  qed
qed

lemma analyze_packet_stamps: "keeps_stamps s (analyze_packet s p t t1 t2)"
proof (cases rule: analyze_packet_cases [of s p t t1 t2])
  case dropped
  then show ?thesis by (simp add: keeps_stamps_same)
next
  case (whitelisted info)
  then show ?thesis by (simp add: keeps_stamps_same)
next
  case (other info)
  then show ?thesis by (simp add: keeps_stamps_same)
next
  case (tcp info tcp)
  have "keeps_stamps s (tracked s (source_ip info) t)" by (simp add: keeps_stamps_same)
  then show ?thesis
    unfolding tcp(6) using analyze_tcp_stamps by (rule keeps_stamps_trans)
qed

lemma analyze_packet_whitelist [simp]:
  "whitelisted_ips (analyze_packet s p t t1 t2) = whitelisted_ips s"
  by (cases rule: analyze_packet_cases [of s p t t1 t2]) simp_all

lemma analyze_packet_config [simp]:
  "config (analyze_packet s p t t1 t2) = config s"
  by (cases rule: analyze_packet_cases [of s p t t1 t2]) simp_all

lemma analyze_packet_count [simp]:
  "packet_count (analyze_packet s p t t1 t2) = packet_count s + 1"
  by (cases rule: analyze_packet_cases [of s p t t1 t2]) simp_all

lemma analyze_tcp_blocked_ips:
  "blocked_ips (analyze_tcp s info tcp t t1 t2) \<subseteq> blocked_ips s \<union> ({source_ip info} - whitelisted_ips s)"
  by (auto simp: analyze_tcp_def Let_def detect_ddos_blocked detect_port_scan_blocked
      detect_ddos_fired detect_port_scan_fired split: option.splits if_splits)

lemma analyze_packet_blocked_ips:
  "blocked_ips (analyze_packet s p t t1 t2) \<subseteq> blocked_ips s \<union> (- whitelisted_ips s)"
proof (cases rule: analyze_packet_cases [of s p t t1 t2])
  case (tcp info tcp)
  show ?thesis unfolding tcp(6)
    using analyze_tcp_blocked_ips [of "tracked s (source_ip info) t" info tcp t t1 t2] by auto
qed simp_all

subsection \<open>Runs of operations\<close>

lemma keeps_stamps_at: "keeps_stamps s s' \<Longrightarrow> keeps_stamps_at ip s s'"
  by (simp add: keeps_stamps_def keeps_stamps_at_def)

lemma keeps_stamps_at_trans:
  "keeps_stamps_at ip s s1 \<Longrightarrow> keeps_stamps_at ip s1 s2 \<Longrightarrow> keeps_stamps_at ip s s2"
  unfolding keeps_stamps_at_def by (metis (no_types, lifting))

lemma block_ip_stamps: "keeps_stamps s (snd (block_ip s ip t))"
  unfolding keeps_stamps_def
  by (auto simp: block_ip_def Let_def add_activity_dossier split: option.splits)

lemma whitelist_ip_stamps: "keeps_stamps s (snd (whitelist_ip s ip t))"
  unfolding keeps_stamps_def
  by (auto simp: whitelist_ip_def Let_def add_activity_dossier split: option.splits)

lemma update_ip_notes_stamps: "keeps_stamps s (snd (update_ip_notes s ip body t))"
  unfolding keeps_stamps_def
  by (auto simp: update_ip_notes_def Let_def split: option.splits)

lemma get_stamps_other:
  "a \<noteq> ip \<Longrightarrow> keeps_stamps_at ip s (snd (get_ip_investigation_data s a t))"
  unfolding keeps_stamps_at_def
  by (auto simp: get_ip_investigation_data_def Let_def split: option.splits)

lemma apply_op_stamps:
  "\<not> is_query_of ip x \<Longrightarrow> keeps_stamps_at ip s (apply_op s x)"
proof (cases x)
  case (Packet p t t1 t2)
  then show ?thesis by (simp add: analyze_packet_stamps keeps_stamps_at)
next
  case (Block a t)
  then show ?thesis by (simp add: block_ip_stamps keeps_stamps_at)
next
  case (Allow a t)
  then show ?thesis by (simp add: whitelist_ip_stamps keeps_stamps_at)
next
  case (RemoveBlock a)
  then show ?thesis by (simp add: remove_block_def keeps_stamps_at_def)
next
  case (RemoveAllow a)
  then show ?thesis by (simp add: remove_allow_def keeps_stamps_at_def)
next
  case (Query a t)
  assume "\<not> is_query_of ip x"
  with Query show ?thesis by (simp add: get_stamps_other)
next
  case (SetNotes a body t)
  then show ?thesis by (simp add: update_ip_notes_stamps keeps_stamps_at)
next
  case (Configure c)
  then show ?thesis by (simp add: keeps_stamps_at_def)
qed

lemma run_stamps:
  "\<forall>x \<in> set ops. \<not> is_query_of ip x \<Longrightarrow> keeps_stamps_at ip s (run s ops)"
proof (induction ops arbitrary: s)
  case Nil
  then show ?case by (simp add: keeps_stamps_at_def)
next
  case (Cons x xs)
  have "keeps_stamps_at ip s (apply_op s x)" using Cons.prems by (simp add: apply_op_stamps)
  moreover have "keeps_stamps_at ip (apply_op s x) (run (apply_op s x) xs)"
    using Cons.prems by (intro Cons.IH) simp
  ultimately show ?case by (simp add: keeps_stamps_at_trans)
qed

lemma apply_op_dom: "dom (ip_investigation_data s) \<subseteq> dom (ip_investigation_data (apply_op s x))"
proof (cases "\<exists>a t. x = Query a t")
  case True
  then show ?thesis
    by (auto simp: get_ip_investigation_data_def Let_def split: option.splits)
next
  case False
  then have "\<not> is_query_of ip x" for ip by (cases x) auto
  then have "keeps_stamps_at ip s (apply_op s x)" for ip by (rule apply_op_stamps)
  then show ?thesis unfolding keeps_stamps_at_def by fastforce
qed

lemma run_dom: "dom (ip_investigation_data s) \<subseteq> dom (ip_investigation_data (run s ops))"
proof (induction ops arbitrary: s)
  case Nil
  show ?case by simp
next
  case (Cons x xs)
  have "dom (ip_investigation_data s) \<subseteq> dom (ip_investigation_data (apply_op s x))"
    by (rule apply_op_dom)
  also have "\<dots> \<subseteq> dom (ip_investigation_data (run (apply_op s x) xs))" by (rule Cons.IH)
  finally show ?case by simp
qed

lemma analyze_packet_dom:
  "a \<in> dom (ip_investigation_data (analyze_packet s p t t1 t2)) \<longleftrightarrow>
     a \<in> dom (ip_investigation_data s) \<or>
     (packet_source p = Some a \<and> alerts (analyze_packet s p t t1 t2) \<noteq> alerts s)"
proof (cases rule: analyze_packet_cases [of s p t t1 t2])
  case (tcp info tcp)
  show ?thesis unfolding tcp(6)
    using analyze_tcp_dom [of "tracked s (source_ip info) t" info tcp t t1 t2] tcp(1)
    by (auto simp: packet_source_def split: if_splits)
qed auto

lemma exclusive_apply_op: "exclusive s \<Longrightarrow> exclusive (apply_op s x)"
proof (cases x)
  case (Packet p t t1 t2)
  assume "exclusive s"
  then show ?thesis
    using analyze_packet_blocked_ips [of s p t t1 t2] Packet by (auto simp: exclusive_def)
next
  case (Block a t)
  assume "exclusive s"
  then show ?thesis using Block
    by (auto simp: exclusive_def block_ip_def Let_def split: option.splits)
next
  case (Allow a t)
  assume "exclusive s"
  then show ?thesis using Allow
    by (auto simp: exclusive_def whitelist_ip_def Let_def split: option.splits if_splits)
next
  case (RemoveBlock a)
  assume "exclusive s"
  then show ?thesis using RemoveBlock by (auto simp: exclusive_def remove_block_def)
next
  case (RemoveAllow a)
  assume "exclusive s"
  then show ?thesis using RemoveAllow by (auto simp: exclusive_def remove_allow_def)
next
  case (Query a t)
  assume "exclusive s"
  then show ?thesis using Query
    by (auto simp: exclusive_def get_ip_investigation_data_def Let_def split: option.splits)
next
  case (SetNotes a body t)
  assume "exclusive s"
  then show ?thesis using SetNotes by (auto simp: exclusive_def update_ip_notes_def Let_def)
next
  case (Configure c)
  assume "exclusive s"
  then show ?thesis using Configure by (auto simp: exclusive_def)
qed

lemma exclusive_run: "exclusive s \<Longrightarrow> exclusive (run s ops)"
  by (induction ops arbitrary: s) (simp_all add: exclusive_apply_op)

lemma whitelist_ip_lists:
  "ip \<notin> blocked_ips (snd (whitelist_ip s ip t))"
  "ip \<in> whitelisted_ips (snd (whitelist_ip s ip t))"
  "blocked_ips (snd (whitelist_ip s ip t)) = blocked_ips s - {ip}"
  "whitelisted_ips (snd (whitelist_ip s ip t)) = insert ip (whitelisted_ips s)"
  by (auto simp: whitelist_ip_def Let_def split: option.splits)

subsection \<open>The access lists\<close>

text \<open>
  Claim C8. No address is on both lists: this holds when the monitor is created, and
  every run of operations (packets with their auto-blocks, \<open>block_ip\<close>, \<open>whitelist_ip\<close>,
  the two removals, queries, notes, configuration) started in a state where it holds
  ends in one. \<open>whitelist_ip\<close> takes the address off the block list and puts it on the
  white list. \<open>block_ip\<close> on a whitelisted address returns \<^verbatim>\<open>False\<close> and leaves the state as
  it was, and neither detector blocks a whitelisted address.
\<close>

theorem access_lists_exclusive:
  "exclusive init_monitor \<and>
   (exclusive s \<longrightarrow> exclusive (run s ops)) \<and>
   blocked_ips (snd (whitelist_ip s ip t)) = blocked_ips s - {ip} \<and>
   whitelisted_ips (snd (whitelist_ip s ip t)) = insert ip (whitelisted_ips s) \<and>
   (ip \<in> whitelisted_ips s \<longrightarrow> block_ip s ip t = (False, s)) \<and>
   (ip \<in> whitelisted_ips s \<longrightarrow>
      blocked_ips (snd (detect_port_scan s ip p t)) = blocked_ips s \<and>
      blocked_ips (snd (detect_ddos s ip t)) = blocked_ips s)"
proof (intro conjI impI)
  show "exclusive init_monitor" by (simp add: exclusive_def init_monitor_def)
  show "exclusive (run s ops)" if "exclusive s" using that by (rule exclusive_run)
  show "blocked_ips (snd (whitelist_ip s ip t)) = blocked_ips s - {ip}"
    by (rule whitelist_ip_lists)
  show "whitelisted_ips (snd (whitelist_ip s ip t)) = insert ip (whitelisted_ips s)"
    by (rule whitelist_ip_lists)
  show "block_ip s ip t = (False, s)" if "ip \<in> whitelisted_ips s"
    using that by (simp add: block_ip_def)
  show "blocked_ips (snd (detect_port_scan s ip p t)) = blocked_ips s" if "ip \<in> whitelisted_ips s"
    using that by (simp add: detect_port_scan_def)
  show "blocked_ips (snd (detect_ddos s ip t)) = blocked_ips s" if "ip \<in> whitelisted_ips s"
    using that by (simp add: detect_ddos_def)
qed

text \<open>
  The theorem at work: block \<open>10.0.0.9\<close>, whitelist it, try to block it again.
\<close>

theorem access_lists_exclusive_witness:
  "exclusive init_monitor \<and>
   exclusive (run init_monitor [Block ''10.0.0.9'' 1, Allow ''10.0.0.9'' 2, Block ''10.0.0.9'' 3]) \<and>
   ''10.0.0.9'' \<in> whitelisted_ips (snd (whitelist_ip (snd (block_ip init_monitor ''10.0.0.9'' 1)) ''10.0.0.9'' 2)) \<and>
   ''10.0.0.9'' \<notin> blocked_ips (snd (whitelist_ip (snd (block_ip init_monitor ''10.0.0.9'' 1)) ''10.0.0.9'' 2)) \<and>
   block_ip (snd (whitelist_ip (snd (block_ip init_monitor ''10.0.0.9'' 1)) ''10.0.0.9'' 2)) ''10.0.0.9'' 3 =
     (False, snd (whitelist_ip (snd (block_ip init_monitor ''10.0.0.9'' 1)) ''10.0.0.9'' 2))"
proof -
  let ?s1 = "snd (block_ip init_monitor ''10.0.0.9'' 1)"
  let ?s2 = "snd (whitelist_ip ?s1 ''10.0.0.9'' 2)"
  have e: "exclusive init_monitor" by (simp add: exclusive_def init_monitor_def)
  have w: "''10.0.0.9'' \<in> whitelisted_ips ?s2" by (simp add: whitelist_ip_lists)
  from access_lists_exclusive [of init_monitor "[Block ''10.0.0.9'' 1, Allow ''10.0.0.9'' 2, Block ''10.0.0.9'' 3]" "''10.0.0.9''" 2 0]
    access_lists_exclusive [of ?s1 "[]" "''10.0.0.9''" 2 0]
    access_lists_exclusive [of ?s2 "[]" "''10.0.0.9''" 3 0] e w
  show ?thesis by simp
qed

subsection \<open>Sample packets\<close>

lemma inet_ntoa_9: "inet_ntoa [10, 0, 0, 9] = ''10.0.0.9''"
  by (simp add: inet_ntoa_def str_nat.simps digit_char_def)

lemma inet_ntoa_7: "inet_ntoa [10, 0, 0, 7] = ''10.0.0.7''"
  by (simp add: inet_ntoa_def str_nat.simps digit_char_def)

lemma tcp_packet_ip_header:
  "length src = 4 \<Longrightarrow>
   parse_ip_header (tcp_packet 0x45 src dport) =
     Some \<lparr>version = 4, header_length = 20, ttl = 64, protocol = 6,
       source_ip = inet_ntoa src, destination_ip = ''10.0.0.1''\<rparr>"
  by (simp add: parse_ip_header_def parse_ip_header_body_def tcp_packet_def inet_ntoa_def
      str_nat.simps digit_char_def)

lemma tcp_packet_source: "length src = 4 \<Longrightarrow> packet_source (tcp_packet 0x45 src dport) = Some (inet_ntoa src)"
  by (simp add: packet_source_def tcp_packet_ip_header)

lemma tcp_packet_tcp_header_25:
  "length src = 4 \<Longrightarrow>
   parse_tcp_header (tcp_packet 0x45 src 25) 20 =
     Some \<lparr>source_port = 80, destination_port = 25, sequence = 0,
       acknowledgement = 0, tcp_header_length = 0, flags = 0\<rparr>"
  by (simp add: parse_tcp_header_def parse_tcp_header_body_def tcp_packet_def be16_def be32_def)

lemma tcp_packet_tcp_header_80:
  "length src = 4 \<Longrightarrow>
   parse_tcp_header (tcp_packet 0x45 src 80) 20 =
     Some \<lparr>source_port = 80, destination_port = 80, sequence = 0,
       acknowledgement = 0, tcp_header_length = 0, flags = 0\<rparr>"
  by (simp add: parse_tcp_header_def parse_tcp_header_body_def tcp_packet_def be16_def be32_def)

subsection \<open>The rule detectors\<close>

text \<open>
  Claim C1. For a source that is not whitelisted, \<open>detect_port_scan\<close> puts the destination
  port into the source's port set, and it reports a scan (returns \<^verbatim>\<open>True\<close> and appends one
  alert of type \<^verbatim>\<open>high\<close>, titled \<^verbatim>\<open>Port Scan Detected\<close>, for that source) if and only if the
  set, with the port in it, has more elements than \<open>port_scan_threshold\<close>. A source whose
  set is above the threshold already is reported again on every call, whatever the port.
  In \<open>analyze_packet\<close>, a TCP packet of a source that is not blocked either adds the
  port-scan alert under the same condition.
\<close>

theorem port_scan_fires_iff_above_threshold:
  assumes "src \<notin> whitelisted_ips s"
  shows
   "dd_get (port_scan_tracker (snd (detect_port_scan s src p t))) {} src =
      insert p (dd_get (port_scan_tracker s) {} src) \<and>
    (fst (detect_port_scan s src p t) \<longleftrightarrow>
       int (card (insert p (dd_get (port_scan_tracker s) {} src))) > port_scan_threshold (config s)) \<and>
    alerts (snd (detect_port_scan s src p t)) =
      alerts s @
        (if int (card (insert p (dd_get (port_scan_tracker s) {} src))) > port_scan_threshold (config s)
         then [port_scan_alert src (card (insert p (dd_get (port_scan_tracker s) {} src))) t]
         else []) \<and>
    alert_type (port_scan_alert src n t) = ''high'' \<and>
    title (port_scan_alert src n t) = ''Port Scan Detected'' \<and>
    alert_source_ip (port_scan_alert src n t) = src \<and>
    (int (card (dd_get (port_scan_tracker s) {} src)) > port_scan_threshold (config s) \<longrightarrow>
       fst (detect_port_scan s src p t)) \<and>
    (packet_source pkt = Some src \<and> src \<notin> blocked_ips s \<longrightarrow>
       (\<forall>info tcp. parse_ip_header pkt = Some info \<and> protocol info = 6 \<and>
           parse_tcp_header pkt (header_length info) = Some tcp \<longrightarrow>
          filter (\<lambda>a. title a = ''Port Scan Detected'')
            (drop (length (alerts s)) (alerts (analyze_packet s pkt t0 t t2))) =
          (if int (card (insert (destination_port tcp) (dd_get (port_scan_tracker s) {} src)))
                > port_scan_threshold (config s)
           then [port_scan_alert src
                   (card (insert (destination_port tcp) (dd_get (port_scan_tracker s) {} src))) t]
           else [])))"
proof -
  have tr: "dd_get (port_scan_tracker (snd (detect_port_scan s src p t))) {} src =
      insert p (dd_get (port_scan_tracker s) {} src)"
    using assms by (simp add: detect_port_scan_tracker dd_get_def)
  have mono: "card (dd_get (port_scan_tracker s) {} src)
      \<le> card (insert p (dd_get (port_scan_tracker s) {} src))"
    by (rule card_mono) auto
  have det: "(fst (detect_port_scan s src p t) \<longleftrightarrow>
       int (card (insert p (dd_get (port_scan_tracker s) {} src))) > port_scan_threshold (config s)) \<and>
    alerts (snd (detect_port_scan s src p t)) =
      alerts s @
        (if int (card (insert p (dd_get (port_scan_tracker s) {} src))) > port_scan_threshold (config s)
         then [port_scan_alert src (card (insert p (dd_get (port_scan_tracker s) {} src))) t]
         else []) \<and>
    alert_type (port_scan_alert src n t) = ''high'' \<and>
    title (port_scan_alert src n t) = ''Port Scan Detected'' \<and>
    alert_source_ip (port_scan_alert src n t) = src \<and>
    (int (card (dd_get (port_scan_tracker s) {} src)) > port_scan_threshold (config s) \<longrightarrow>
       fst (detect_port_scan s src p t))"
    using assms mono
    by (simp add: detect_port_scan_fired detect_port_scan_alerts port_scan_alert_def)
  have pipe: "filter (\<lambda>a. title a = ''Port Scan Detected'')
            (drop (length (alerts s)) (alerts (analyze_packet s pkt t0 t t2))) =
          (if int (card (insert (destination_port tcp) (dd_get (port_scan_tracker s) {} src)))
                > port_scan_threshold (config s)
           then [port_scan_alert src
                   (card (insert (destination_port tcp) (dd_get (port_scan_tracker s) {} src))) t]
           else [])"
    if ps: "packet_source pkt = Some src" and nb: "src \<notin> blocked_ips s"
      and pi: "parse_ip_header pkt = Some info" and pr: "protocol info = 6"
      and pt: "parse_tcp_header pkt (header_length info) = Some tcp" for info tcp
  proof -
    have src: "source_ip info = src" using ps pi by (simp add: packet_source_def)
    let ?s0 = "tracked s src t0"
    let ?s1 = "snd (detect_port_scan ?s0 src (destination_port tcp) t)"
    have ap: "analyze_packet s pkt t0 t t2 = analyze_tcp ?s0 info tcp t0 t t2"
      using analyze_packet_accepted [OF pi, of s t0 t t2] nb assms pr pt src by simp
    have "alerts (analyze_packet s pkt t0 t t2) =
        alerts s @
          (if fst (detect_port_scan ?s0 src (destination_port tcp) t)
           then [port_scan_alert src
                   (card (insert (destination_port tcp) (dd_get (port_scan_tracker ?s0) {} src))) t]
           else []) @
          (if fst (detect_ddos ?s1 src t2)
           then [ddos_alert src (length (recent_packets ?s1 src t2)) t2] else [])"
      unfolding ap by (simp add: analyze_tcp_alerts src detect_ddos_alerts detect_port_scan_alerts)
    then show ?thesis
      using assms
      by (simp add: detect_port_scan_fired port_scan_alert_def ddos_alert_def)
  qed
  show ?thesis
    using tr det pipe by blast
qed

text \<open>
  Threshold 5 and the ports 20 to 24 seen: port 25 is the sixth and is reported, port 24
  again is not; the packet that carries port 25 adds the alert with the count 6.
\<close>

theorem port_scan_fires_witness:
  "''10.0.0.9'' \<notin> whitelisted_ips
      (init_monitor\<lparr>port_scan_tracker := [''10.0.0.9'' \<mapsto> {20, 21, 22, 23, 24}],
                    config := (config init_monitor)\<lparr>port_scan_threshold := 5\<rparr>\<rparr>) \<and>
   fst (detect_port_scan
      (init_monitor\<lparr>port_scan_tracker := [''10.0.0.9'' \<mapsto> {20, 21, 22, 23, 24}],
                    config := (config init_monitor)\<lparr>port_scan_threshold := 5\<rparr>\<rparr>)
      ''10.0.0.9'' 25 6) \<and>
   \<not> fst (detect_port_scan
      (init_monitor\<lparr>port_scan_tracker := [''10.0.0.9'' \<mapsto> {20, 21, 22, 23, 24}],
                    config := (config init_monitor)\<lparr>port_scan_threshold := 5\<rparr>\<rparr>)
      ''10.0.0.9'' 24 6) \<and>
   packet_source (tcp_packet 0x45 [10, 0, 0, 9] 25) = Some ''10.0.0.9'' \<and>
   filter (\<lambda>a. title a = ''Port Scan Detected'')
     (alerts (analyze_packet
        (init_monitor\<lparr>port_scan_tracker := [''10.0.0.9'' \<mapsto> {20, 21, 22, 23, 24}],
                      config := (config init_monitor)\<lparr>port_scan_threshold := 5\<rparr>\<rparr>)
        (tcp_packet 0x45 [10, 0, 0, 9] 25) 6 6 6)) =
     [port_scan_alert ''10.0.0.9'' 6 6]"
proof -
  let ?S = "init_monitor\<lparr>port_scan_tracker := [''10.0.0.9'' \<mapsto> {20, 21, 22, 23, 24}],
                    config := (config init_monitor)\<lparr>port_scan_threshold := 5\<rparr>\<rparr>"
  let ?p = "tcp_packet 0x45 [10, 0, 0, 9] 25"
  have h: "''10.0.0.9'' \<notin> whitelisted_ips ?S" by (simp add: init_monitor_def)
  have nb: "''10.0.0.9'' \<notin> blocked_ips ?S" by (simp add: init_monitor_def)
  have thr: "port_scan_threshold (config ?S) = 5" "alerts ?S = []"
    by (simp_all add: init_monitor_def)
  have c25: "card (insert 25 (dd_get (port_scan_tracker ?S) {} ''10.0.0.9'')) = 6"
    by (simp add: dd_get_def)
  have c24: "card (insert 24 (dd_get (port_scan_tracker ?S) {} ''10.0.0.9'')) = 5"
    by code_simp
  have ps: "packet_source ?p = Some ''10.0.0.9''" by (simp add: tcp_packet_source inet_ntoa_9)
  have pi: "parse_ip_header ?p =
     Some \<lparr>version = 4, header_length = 20, ttl = 64, protocol = 6,
       source_ip = ''10.0.0.9'', destination_ip = ''10.0.0.1''\<rparr>"
    by (simp add: tcp_packet_ip_header inet_ntoa_9)
  have pt: "parse_tcp_header ?p 20 =
     Some \<lparr>source_port = 80, destination_port = 25, sequence = 0,
       acknowledgement = 0, tcp_header_length = 0, flags = 0\<rparr>"
    by (simp add: tcp_packet_tcp_header_25)
  note T25 = port_scan_fires_iff_above_threshold [OF h, where p = 25 and t = 6 and n = 0
      and pkt = ?p and ?t0.0 = 6 and ?t2.0 = 6]
  note T24 = port_scan_fires_iff_above_threshold [OF h, where p = 24 and t = 6 and n = 0
      and pkt = ?p and ?t0.0 = 6 and ?t2.0 = 6]
  have a: "fst (detect_port_scan ?S ''10.0.0.9'' 25 6)"
    using T25 unfolding c25 thr by simp
  have b: "\<not> fst (detect_port_scan ?S ''10.0.0.9'' 24 6)"
    using T24 unfolding c24 thr by simp
  have "filter (\<lambda>a. title a = ''Port Scan Detected'')
      (drop (length (alerts ?S)) (alerts (analyze_packet ?S ?p 6 6 6))) =
      [port_scan_alert ''10.0.0.9'' 6 6]"
    using T25 ps nb pi pt c25 unfolding thr by simp
  then show ?thesis using a b h ps unfolding thr by simp
qed

text \<open>
  Claim C2. For a source that is not whitelisted, \<open>detect_ddos\<close> counts the recorded
  arrival times \<open>t\<close> of the source with \<open>now - t < 1.0\<close>, and it reports a flood (returns
  \<^verbatim>\<open>True\<close> and appends one alert of type \<^verbatim>\<open>high\<close>) if and only if the count is above
  \<open>ddos_threshold\<close>; the alert's description carries the count. In \<open>analyze_packet\<close>, for a
  TCP packet of a source that is not blocked either, the recorded times are the earlier
  ones with the packet's own, cut to the last 60 seconds, and the flood alert is among
  the alerts the packet adds under the same condition.
\<close>

theorem flood_fires_iff_recent_above_threshold:
  assumes "src \<notin> whitelisted_ips s"
  shows
   "(fst (detect_ddos s src now) \<longleftrightarrow>
       int (length (filter (\<lambda>t. now - t < 1.0) (dd_get (connection_tracker s) [] src)))
         > ddos_threshold (config s)) \<and>
    alerts (snd (detect_ddos s src now)) =
      alerts s @
        (if int (length (filter (\<lambda>t. now - t < 1.0) (dd_get (connection_tracker s) [] src)))
              > ddos_threshold (config s)
         then [ddos_alert src
                 (length (filter (\<lambda>t. now - t < 1.0) (dd_get (connection_tracker s) [] src))) now]
         else []) \<and>
    alert_type (ddos_alert src n now) = ''high'' \<and>
    title (ddos_alert src n now) = ''DDoS Attack Detected'' \<and>
    alert_source_ip (ddos_alert src n now) = src \<and>
    description (ddos_alert src n now) =
      ''IP '' @ src @ '' sent '' @ str_nat n @ '' packets in 1 second'' \<and>
    (packet_source pkt = Some src \<and> src \<notin> blocked_ips s \<longrightarrow>
       dd_get (connection_tracker (tracked s src t)) [] src =
         filter (\<lambda>u. t - u < 60) (dd_get (connection_tracker s) [] src @ [t]) \<and>
       (\<forall>info tcp. parse_ip_header pkt = Some info \<and> protocol info = 6 \<and>
           parse_tcp_header pkt (header_length info) = Some tcp \<longrightarrow>
          filter (\<lambda>a. title a = ''DDoS Attack Detected'')
            (drop (length (alerts s)) (alerts (analyze_packet s pkt t t1 now))) =
          (if int (length (filter (\<lambda>u. now - u < 1.0)
                     (dd_get (connection_tracker (tracked s src t)) [] src)))
                > ddos_threshold (config s)
           then [ddos_alert src
                   (length (filter (\<lambda>u. now - u < 1.0)
                      (dd_get (connection_tracker (tracked s src t)) [] src))) now]
           else [])))"
proof -
  have det: "(fst (detect_ddos s src now) \<longleftrightarrow>
       int (length (filter (\<lambda>t. now - t < 1.0) (dd_get (connection_tracker s) [] src)))
         > ddos_threshold (config s))"
    using assms by (simp add: detect_ddos_fired recent_packets_def)
  have al: "alerts (snd (detect_ddos s src now)) =
      alerts s @
        (if int (length (filter (\<lambda>t. now - t < 1.0) (dd_get (connection_tracker s) [] src)))
              > ddos_threshold (config s)
         then [ddos_alert src
                 (length (filter (\<lambda>t. now - t < 1.0) (dd_get (connection_tracker s) [] src))) now]
         else [])"
    using assms by (simp add: detect_ddos_alerts detect_ddos_fired recent_packets_def)
  have pipe: "filter (\<lambda>a. title a = ''DDoS Attack Detected'')
            (drop (length (alerts s)) (alerts (analyze_packet s pkt t t1 now))) =
          (if int (length (filter (\<lambda>u. now - u < 1.0)
                     (dd_get (connection_tracker (tracked s src t)) [] src)))
                > ddos_threshold (config s)
           then [ddos_alert src
                   (length (filter (\<lambda>u. now - u < 1.0)
                      (dd_get (connection_tracker (tracked s src t)) [] src))) now]
           else [])"
    if ps: "packet_source pkt = Some src" and nb: "src \<notin> blocked_ips s"
      and pi: "parse_ip_header pkt = Some info" and pr: "protocol info = 6"
      and pt: "parse_tcp_header pkt (header_length info) = Some tcp" for info tcp
  proof -
    have src: "source_ip info = src" using ps pi by (simp add: packet_source_def)
    let ?s0 = "tracked s src t"
    let ?s1 = "snd (detect_port_scan ?s0 src (destination_port tcp) t1)"
    have ap: "analyze_packet s pkt t t1 now = analyze_tcp ?s0 info tcp t t1 now"
      using analyze_packet_accepted [OF pi, of s t t1 now] nb assms pr pt src by simp
    have rp: "recent_packets ?s1 src now =
        filter (\<lambda>u. now - u < 1.0) (dd_get (connection_tracker ?s0) [] src)"
      by (simp add: recent_packets_def)
    have "alerts (analyze_packet s pkt t t1 now) =
        alerts s @
          (if fst (detect_port_scan ?s0 src (destination_port tcp) t1)
           then [port_scan_alert src
                   (card (insert (destination_port tcp) (dd_get (port_scan_tracker ?s0) {} src))) t1]
           else []) @
          (if fst (detect_ddos ?s1 src now)
           then [ddos_alert src (length (recent_packets ?s1 src now)) now] else [])"
      unfolding ap by (simp add: analyze_tcp_alerts src detect_ddos_alerts detect_port_scan_alerts)
    then show ?thesis
      using assms
      by (simp add: detect_ddos_fired rp port_scan_alert_def ddos_alert_def)
  qed
  show ?thesis
    using det al pipe by (auto simp: ddos_alert_def tracked_tracker)
qed

text \<open>
  Threshold 2. With arrival times 8, 9.5 and 9.75 on record, two fall into the second
  before 10, so a call at 10 reports nothing; a packet that arrives at 10 is the third,
  and \<open>analyze_packet\<close> adds the flood alert with the count 3.
\<close>

theorem flood_fires_witness:
  "''10.0.0.9'' \<notin> whitelisted_ips
      (init_monitor\<lparr>connection_tracker := [''10.0.0.9'' \<mapsto> [8, 9.5, 9.75]],
                    config := (config init_monitor)\<lparr>ddos_threshold := 2\<rparr>\<rparr>) \<and>
   \<not> fst (detect_ddos
      (init_monitor\<lparr>connection_tracker := [''10.0.0.9'' \<mapsto> [8, 9.5, 9.75]],
                    config := (config init_monitor)\<lparr>ddos_threshold := 2\<rparr>\<rparr>)
      ''10.0.0.9'' 10) \<and>
   packet_source (tcp_packet 0x45 [10, 0, 0, 9] 25) = Some ''10.0.0.9'' \<and>
   filter (\<lambda>a. title a = ''DDoS Attack Detected'')
     (alerts (analyze_packet
        (init_monitor\<lparr>connection_tracker := [''10.0.0.9'' \<mapsto> [8, 9.5, 9.75]],
                      config := (config init_monitor)\<lparr>ddos_threshold := 2\<rparr>\<rparr>)
        (tcp_packet 0x45 [10, 0, 0, 9] 25) 10 10 10)) =
     [ddos_alert ''10.0.0.9'' 3 10]"
proof -
  let ?S = "init_monitor\<lparr>connection_tracker := [''10.0.0.9'' \<mapsto> [8, 9.5, 9.75]],
                    config := (config init_monitor)\<lparr>ddos_threshold := 2\<rparr>\<rparr>"
  let ?p = "tcp_packet 0x45 [10, 0, 0, 9] 25"
  have h: "''10.0.0.9'' \<notin> whitelisted_ips ?S" by (simp add: init_monitor_def)
  have nb: "''10.0.0.9'' \<notin> blocked_ips ?S" by (simp add: init_monitor_def)
  have ps: "packet_source ?p = Some ''10.0.0.9''" by (simp add: tcp_packet_source inet_ntoa_9)
  have pi: "parse_ip_header ?p =
     Some \<lparr>version = 4, header_length = 20, ttl = 64, protocol = 6,
       source_ip = ''10.0.0.9'', destination_ip = ''10.0.0.1''\<rparr>"
    by (simp add: tcp_packet_ip_header inet_ntoa_9)
  have pt: "parse_tcp_header ?p 20 =
     Some \<lparr>source_port = 80, destination_port = 25, sequence = 0,
       acknowledgement = 0, tcp_header_length = 0, flags = 0\<rparr>"
    by (simp add: tcp_packet_tcp_header_25)
  have old: "dd_get (connection_tracker ?S) [] ''10.0.0.9'' = [8, 9.5, 9.75]"
    by (simp add: dd_get_def)
  have thr: "ddos_threshold (config ?S) = 2" "alerts ?S = []"
    by (simp_all add: init_monitor_def)
  note T = flood_fires_iff_recent_above_threshold [OF h, where now = 10 and pkt = ?p and t = 10
      and ?t1.0 = 10 and n = 3]
  have a: "\<not> fst (detect_ddos ?S ''10.0.0.9'' 10)"
    using T by (simp add: dd_get_def)
  have rec: "dd_get (connection_tracker (tracked ?S ''10.0.0.9'' 10)) [] ''10.0.0.9'' =
      [8, 9.5, 9.75, 10]"
    unfolding tracked_tracker by (simp add: dd_get_def)
  have cnt: "length (filter (\<lambda>u. 10 - u < 1.0) [8, 9.5, 9.75, 10::real]) = 3"
    by simp
  have "filter (\<lambda>a. title a = ''DDoS Attack Detected'')
      (drop (length (alerts ?S)) (alerts (analyze_packet ?S ?p 10 10 10))) =
      [ddos_alert ''10.0.0.9'' 3 10]"
    using T ps nb pi pt unfolding rec cnt thr by simp
  then show ?thesis using a h ps unfolding thr by simp
qed

subsection \<open>Whitelisted sources\<close>

text \<open>
  Claim C6, as amended. A packet of a whitelisted source raises no alert and blocks
  nobody, and both detectors return \<^verbatim>\<open>False\<close> for the source without touching the state.
  The packet is counted: \<open>packet_count\<close> grows by one and, unless the source is blocked as
  well, the arrival time is appended to the source's list. Nothing else changes: the
  packet is not appended to \<open>traffic_history\<close>, and its destination port is recorded
  neither in \<open>port_scan_tracker\<close> nor in \<open>ip_investigation_data\<close>.
\<close>

theorem whitelisted_packet_is_only_counted:
  assumes "packet_source p = Some src" and "src \<in> whitelisted_ips s"
  shows
   "alerts (analyze_packet s p t t1 t2) = alerts s \<and>
    suspicious_packets (analyze_packet s p t t1 t2) = suspicious_packets s \<and>
    blocked_ips (analyze_packet s p t t1 t2) = blocked_ips s \<and>
    detect_port_scan s src dport t1 = (False, s) \<and>
    detect_ddos s src t2 = (False, s) \<and>
    packet_count (analyze_packet s p t t1 t2) = packet_count s + 1 \<and>
    connection_tracker (analyze_packet s p t t1 t2) =
      (if src \<in> blocked_ips s then connection_tracker s
       else (connection_tracker s)(src \<mapsto> dd_get (connection_tracker s) [] src @ [t])) \<and>
    traffic_history (analyze_packet s p t t1 t2) = traffic_history s \<and>
    port_scan_tracker (analyze_packet s p t t1 t2) = port_scan_tracker s \<and>
    ip_investigation_data (analyze_packet s p t t1 t2) = ip_investigation_data s"
proof -
  obtain info where pi: "parse_ip_header p = Some info" and src: "source_ip info = src"
    using assms(1) by (auto simp: packet_source_def)
  show ?thesis
  proof (cases "src \<in> blocked_ips s")
    case True
    then show ?thesis
      using analyze_packet_blocked [OF pi, of s t t1 t2] src assms(2)
      by (simp add: detect_port_scan_def detect_ddos_def)
  next
    case False
    then show ?thesis
      using analyze_packet_whitelisted [OF pi, of s t t1 t2] src assms(2)
      by (simp add: detect_port_scan_def detect_ddos_def)
  qed
qed

text \<open>A TCP packet from the whitelisted \<open>10.0.0.9\<close> to port 25, in a fresh monitor.\<close>

theorem whitelisted_packet_witness:
  "packet_source (tcp_packet 0x45 [10, 0, 0, 9] 25) = Some ''10.0.0.9'' \<and>
   ''10.0.0.9'' \<in> whitelisted_ips (init_monitor\<lparr>whitelisted_ips := {''10.0.0.9''}\<rparr>) \<and>
   alerts (analyze_packet (init_monitor\<lparr>whitelisted_ips := {''10.0.0.9''}\<rparr>)
             (tcp_packet 0x45 [10, 0, 0, 9] 25) 1 1 1) = [] \<and>
   packet_count (analyze_packet (init_monitor\<lparr>whitelisted_ips := {''10.0.0.9''}\<rparr>)
             (tcp_packet 0x45 [10, 0, 0, 9] 25) 1 1 1) = 1 \<and>
   connection_tracker (analyze_packet (init_monitor\<lparr>whitelisted_ips := {''10.0.0.9''}\<rparr>)
             (tcp_packet 0x45 [10, 0, 0, 9] 25) 1 1 1) ''10.0.0.9'' = Some [1]"
proof -
  let ?S = "init_monitor\<lparr>whitelisted_ips := {''10.0.0.9''}\<rparr>"
  have h1: "packet_source (tcp_packet 0x45 [10, 0, 0, 9] 25) = Some ''10.0.0.9''"
    by (simp add: tcp_packet_source inet_ntoa_9)
  have h2: "''10.0.0.9'' \<in> whitelisted_ips ?S" by simp
  have nb: "''10.0.0.9'' \<notin> blocked_ips ?S" by (simp add: init_monitor_def)
  have "alerts ?S = []" "packet_count ?S = 0"
    "dd_get (connection_tracker ?S) [] ''10.0.0.9'' = []"
    by (simp_all add: init_monitor_def dd_get_def)
  with whitelisted_packet_is_only_counted [OF h1 h2, where t = 1 and ?t1.0 = 1 and ?t2.0 = 1] h1 h2 nb
  show ?thesis by simp
qed

text \<open>
  Claim C6 as stated fails: the same packet is not appended to the traffic log, and its
  port 25 is recorded nowhere.
\<close>

theorem whitelisted_packet_not_logged_counterexample:
  "packet_source (tcp_packet 0x45 [10, 0, 0, 9] 25) = Some ''10.0.0.9'' \<and>
   map_option destination_port (parse_tcp_header (tcp_packet 0x45 [10, 0, 0, 9] 25) 20) = Some 25 \<and>
   traffic_history (analyze_packet (init_monitor\<lparr>whitelisted_ips := {''10.0.0.9''}\<rparr>)
             (tcp_packet 0x45 [10, 0, 0, 9] 25) 1 1 1) = [] \<and>
   port_scan_tracker (analyze_packet (init_monitor\<lparr>whitelisted_ips := {''10.0.0.9''}\<rparr>)
             (tcp_packet 0x45 [10, 0, 0, 9] 25) 1 1 1) ''10.0.0.9'' = None \<and>
   ip_investigation_data (analyze_packet (init_monitor\<lparr>whitelisted_ips := {''10.0.0.9''}\<rparr>)
             (tcp_packet 0x45 [10, 0, 0, 9] 25) 1 1 1) ''10.0.0.9'' = None"
proof -
  let ?S = "init_monitor\<lparr>whitelisted_ips := {''10.0.0.9''}\<rparr>"
  have pi: "parse_ip_header (tcp_packet 0x45 [10, 0, 0, 9] 25) =
     Some \<lparr>version = 4, header_length = 20, ttl = 64, protocol = 6,
       source_ip = ''10.0.0.9'', destination_ip = ''10.0.0.1''\<rparr>"
    by (simp add: tcp_packet_ip_header inet_ntoa_9)
  have "analyze_packet ?S (tcp_packet 0x45 [10, 0, 0, 9] 25) 1 1 1 =
      ?S\<lparr>packet_count := packet_count ?S + 1,
         connection_tracker := (connection_tracker ?S)
           (''10.0.0.9'' \<mapsto> dd_get (connection_tracker ?S) [] ''10.0.0.9'' @ [1])\<rparr>"
    using analyze_packet_whitelisted [OF pi, of ?S 1 1 1] by (simp add: init_monitor_def)
  then show ?thesis
    by (simp add: init_monitor_def tcp_packet_source inet_ntoa_9 tcp_packet_tcp_header_25)
qed

subsection \<open>The window of arrival times\<close>

text \<open>
  Claim C7, as amended. After \<open>analyze_packet\<close> has handled a packet of a source that is
  neither blocked nor whitelisted, every arrival time \<open>u\<close> recorded for that source
  satisfies \<open>t - u < 60\<close>, where \<open>t\<close> is the clock reading of the call: the list is the
  old one with \<open>t\<close> appended, cut to the last 60 seconds. The lists of all other sources
  are left as they were.
\<close>

theorem own_timestamps_are_recent:
  assumes "packet_source p = Some src" and "src \<notin> blocked_ips s" and "src \<notin> whitelisted_ips s"
  shows
   "dd_get (connection_tracker (analyze_packet s p t t1 t2)) [] src =
      filter (\<lambda>u. t - u < 60) (dd_get (connection_tracker s) [] src @ [t]) \<and>
    (\<forall>u \<in> set (dd_get (connection_tracker (analyze_packet s p t t1 t2)) [] src). t - u < 60) \<and>
    (\<forall>a. a \<noteq> src \<longrightarrow>
       connection_tracker (analyze_packet s p t t1 t2) a = connection_tracker s a)"
proof -
  obtain info where pi: "parse_ip_header p = Some info" and src: "source_ip info = src"
    using assms(1) by (auto simp: packet_source_def)
  note acc = analyze_packet_accepted [OF pi, of s t t1 t2, unfolded src, OF assms(2,3)]
  have own: "dd_get (connection_tracker (analyze_packet s p t t1 t2)) [] src =
      filter (\<lambda>u. t - u < 60) (dd_get (connection_tracker s) [] src @ [t])"
    unfolding acc by (simp add: analyze_tcp_tracker tracked_tracker split: option.splits)
  have other: "connection_tracker (analyze_packet s p t t1 t2) a = connection_tracker s a"
    if "a \<noteq> src" for a
    unfolding acc using that src
    by (simp add: analyze_tcp_tracker_other tracked_def split: option.splits)
  show ?thesis unfolding own using other by simp
qed

text \<open>Arrival times 0 and 50 on record, a packet at 100: 0 is evicted.\<close>

theorem own_timestamps_witness:
  "packet_source (tcp_packet 0x45 [10, 0, 0, 9] 25) = Some ''10.0.0.9'' \<and>
   ''10.0.0.9'' \<notin> blocked_ips (init_monitor\<lparr>connection_tracker := [''10.0.0.9'' \<mapsto> [0, 50]]\<rparr>) \<and>
   ''10.0.0.9'' \<notin> whitelisted_ips (init_monitor\<lparr>connection_tracker := [''10.0.0.9'' \<mapsto> [0, 50]]\<rparr>) \<and>
   dd_get (connection_tracker
             (analyze_packet (init_monitor\<lparr>connection_tracker := [''10.0.0.9'' \<mapsto> [0, 50]]\<rparr>)
                (tcp_packet 0x45 [10, 0, 0, 9] 25) 100 100 100)) [] ''10.0.0.9'' = [50, 100]"
proof -
  let ?S = "init_monitor\<lparr>connection_tracker := [''10.0.0.9'' \<mapsto> [0, 50]]\<rparr>"
  have h1: "packet_source (tcp_packet 0x45 [10, 0, 0, 9] 25) = Some ''10.0.0.9''"
    by (simp add: tcp_packet_source inet_ntoa_9)
  have h2: "''10.0.0.9'' \<notin> blocked_ips ?S" by (simp add: init_monitor_def)
  have h3: "''10.0.0.9'' \<notin> whitelisted_ips ?S" by (simp add: init_monitor_def)
  show ?thesis
    using own_timestamps_are_recent [OF h1 h2 h3, of 100 100 100] h1 h2 h3
    by (simp add: dd_get_def)
qed

text \<open>
  Claim C7 as stated fails: \<open>10.0.0.9\<close> sends a packet at time 0, \<open>10.0.0.7\<close> sends one at
  time 100. After the second step the list of \<open>10.0.0.9\<close> still holds 0, which is 100
  seconds old.
\<close>

theorem idle_source_keeps_old_timestamps_counterexample:
  "packet_source (tcp_packet 0x45 [10, 0, 0, 9] 25) = Some ''10.0.0.9'' \<and>
   packet_source (tcp_packet 0x45 [10, 0, 0, 7] 80) = Some ''10.0.0.7'' \<and>
   connection_tracker
     (analyze_packet (analyze_packet init_monitor (tcp_packet 0x45 [10, 0, 0, 9] 25) 0 0 0)
        (tcp_packet 0x45 [10, 0, 0, 7] 80) 100 100 100) ''10.0.0.9'' = Some [0] \<and>
   \<not> (100 - 0 < (60::real))"
proof -
  let ?a = "tcp_packet 0x45 [10, 0, 0, 9] 25"
  let ?b = "tcp_packet 0x45 [10, 0, 0, 7] 80"
  let ?s1 = "analyze_packet init_monitor ?a 0 0 0"
  have pa: "parse_ip_header ?a =
     Some \<lparr>version = 4, header_length = 20, ttl = 64, protocol = 6,
       source_ip = ''10.0.0.9'', destination_ip = ''10.0.0.1''\<rparr>"
    by (simp add: tcp_packet_ip_header inet_ntoa_9)
  have pb: "parse_ip_header ?b =
     Some \<lparr>version = 4, header_length = 20, ttl = 64, protocol = 6,
       source_ip = ''10.0.0.7'', destination_ip = ''10.0.0.1''\<rparr>"
    by (simp add: tcp_packet_ip_header inet_ntoa_7)
  have s1: "?s1 = analyze_tcp (tracked init_monitor ''10.0.0.9'' 0)
       \<lparr>version = 4, header_length = 20, ttl = 64, protocol = 6,
         source_ip = ''10.0.0.9'', destination_ip = ''10.0.0.1''\<rparr>
       \<lparr>source_port = 80, destination_port = 25, sequence = 0,
         acknowledgement = 0, tcp_header_length = 0, flags = 0\<rparr> 0 0 0"
    using analyze_packet_accepted [OF pa, of init_monitor 0 0 0]
    by (simp add: init_monitor_def tcp_packet_tcp_header_25)
  have t1: "dd_get (connection_tracker ?s1) [] ''10.0.0.9'' = [0]"
    unfolding s1 analyze_tcp_tracker tracked_tracker by (simp add: init_monitor_def dd_get_def)
  have p1: "connection_tracker ?s1 ''10.0.0.9'' \<noteq> None"
    unfolding s1
    by (simp add: analyze_tcp_tracker_eq detect_ddos_def Let_def tracked_def)
  have c1: "connection_tracker ?s1 ''10.0.0.9'' = Some [0]"
    using t1 p1 by (auto simp: dd_get_def split: option.splits)
  have b1: "blocked_ips ?s1 = {}" "whitelisted_ips ?s1 = {}"
    using analyze_packet_blocked_ips [of init_monitor ?a 0 0 0]
    unfolding s1
    by (simp_all add: analyze_tcp_def Let_def detect_ddos_blocked detect_port_scan_blocked
        init_monitor_def split: option.splits)
  have "connection_tracker (analyze_packet ?s1 ?b 100 100 100) ''10.0.0.9'' =
      connection_tracker ?s1 ''10.0.0.9''"
    using analyze_packet_accepted [OF pb, of ?s1 100 100 100] b1
    by (simp add: tcp_packet_tcp_header_80 analyze_tcp_tracker_other tracked_def)
  then show ?thesis
    using c1 by (simp add: tcp_packet_source inet_ntoa_9 inet_ntoa_7)
qed

subsection \<open>Entries of the investigation data\<close>

text \<open>
  Claim C9, as amended. An entry of \<open>ip_investigation_data\<close> is never deleted: no run of
  operations removes an address from it. An entry is created only when a detector
  reports the source or when notes are set: after \<open>analyze_packet\<close> an address has an entry
  if and only if it had one before, or it is the source of the packet and the packet
  raised an alert. \<open>update_ip_notes\<close> always leaves one, and \<open>block_ip\<close>, \<open>whitelist_ip\<close> and
  \<open>get_ip_investigation_data\<close> create none.
\<close>

theorem dossier_created_on_detection_or_notes:
  "dom (ip_investigation_data s) \<subseteq> dom (ip_investigation_data (run s ops)) \<and>
   (a \<in> dom (ip_investigation_data (analyze_packet s p t t1 t2)) \<longleftrightarrow>
      a \<in> dom (ip_investigation_data s) \<or>
      (packet_source p = Some a \<and> alerts (analyze_packet s p t t1 t2) \<noteq> alerts s)) \<and>
   a \<in> dom (ip_investigation_data (snd (update_ip_notes s a body t))) \<and>
   dom (ip_investigation_data (snd (block_ip s a t))) = dom (ip_investigation_data s) \<and>
   dom (ip_investigation_data (snd (whitelist_ip s a t))) = dom (ip_investigation_data s) \<and>
   dom (ip_investigation_data (snd (get_ip_investigation_data s a t))) = dom (ip_investigation_data s)"
proof (intro conjI)
  show "dom (ip_investigation_data s) \<subseteq> dom (ip_investigation_data (run s ops))"
    by (rule run_dom)
  show "a \<in> dom (ip_investigation_data (analyze_packet s p t t1 t2)) \<longleftrightarrow>
      a \<in> dom (ip_investigation_data s) \<or>
      (packet_source p = Some a \<and> alerts (analyze_packet s p t t1 t2) \<noteq> alerts s)"
    by (rule analyze_packet_dom)
  show "a \<in> dom (ip_investigation_data (snd (update_ip_notes s a body t)))"
    by (simp add: update_ip_notes_def Let_def)
  show "dom (ip_investigation_data (snd (block_ip s a t))) = dom (ip_investigation_data s)"
    by (auto simp: block_ip_def Let_def add_activity_dossier split: option.splits if_splits)
  show "dom (ip_investigation_data (snd (whitelist_ip s a t))) = dom (ip_investigation_data s)"
    by (auto simp: whitelist_ip_def Let_def add_activity_dossier split: option.splits if_splits)
  show "dom (ip_investigation_data (snd (get_ip_investigation_data s a t))) = dom (ip_investigation_data s)"
    by (auto simp: get_ip_investigation_data_def Let_def split: option.splits if_splits)
qed

text \<open>
  Claim C9 as stated fails: the first packet of \<open>10.0.0.9\<close> is observed (its arrival time
  is recorded) and raises no alert, so no entry is created and a query returns \<^verbatim>\<open>None\<close>.
\<close>

theorem first_packet_creates_no_dossier_counterexample:
  "packet_source (tcp_packet 0x45 [10, 0, 0, 9] 25) = Some ''10.0.0.9'' \<and>
   ''10.0.0.9'' \<notin> blocked_ips init_monitor \<and>
   ''10.0.0.9'' \<notin> whitelisted_ips init_monitor \<and>
   connection_tracker (analyze_packet init_monitor (tcp_packet 0x45 [10, 0, 0, 9] 25) 1 1 1)
     ''10.0.0.9'' = Some [1] \<and>
   ip_investigation_data (analyze_packet init_monitor (tcp_packet 0x45 [10, 0, 0, 9] 25) 1 1 1)
     ''10.0.0.9'' = None \<and>
   fst (get_ip_investigation_data
          (analyze_packet init_monitor (tcp_packet 0x45 [10, 0, 0, 9] 25) 1 1 1)
          ''10.0.0.9'' 2) = None"
proof -
  let ?a = "tcp_packet 0x45 [10, 0, 0, 9] 25"
  let ?info = "\<lparr>version = 4, header_length = 20, ttl = 64, protocol = 6,
       source_ip = ''10.0.0.9'', destination_ip = ''10.0.0.1''\<rparr>"
  let ?tcp = "\<lparr>source_port = 80, destination_port = 25, sequence = 0,
         acknowledgement = 0, tcp_header_length = 0, flags = 0\<rparr>"
  let ?s0 = "tracked init_monitor ''10.0.0.9'' 1"
  let ?s1 = "analyze_packet init_monitor ?a 1 1 1"
  have pa: "parse_ip_header ?a = Some ?info"
    by (simp add: tcp_packet_ip_header inet_ntoa_9)
  have s1: "?s1 = analyze_tcp ?s0 ?info ?tcp 1 1 1"
    using analyze_packet_accepted [OF pa, of init_monitor 1 1 1]
    by (simp add: init_monitor_def tcp_packet_tcp_header_25)
  have tr0: "dd_get (connection_tracker ?s0) [] ''10.0.0.9'' = [1]"
    unfolding tracked_tracker by (simp add: init_monitor_def dd_get_def)
  have f1: "\<not> fst (detect_port_scan ?s0 ''10.0.0.9'' 25 1)"
    by (simp add: detect_port_scan_fired init_monitor_def dd_get_def)
  have f2: "\<not> fst (detect_ddos (snd (detect_port_scan ?s0 ''10.0.0.9'' 25 1)) ''10.0.0.9'' 1)"
    by (simp add: detect_ddos_fired recent_packets_def tr0) (simp add: init_monitor_def)
  have d: "ip_investigation_data ?s1 ''10.0.0.9'' = None"
    unfolding s1 using f1 f2
    by (simp add: analyze_tcp_dossier Let_def detect_ddos_dossier detect_port_scan_dossier)
       (simp add: init_monitor_def)
  have t1: "dd_get (connection_tracker ?s1) [] ''10.0.0.9'' = [1]"
    unfolding s1 analyze_tcp_tracker by (rule tr0)
  have p1: "connection_tracker ?s1 ''10.0.0.9'' \<noteq> None"
    unfolding s1 by (simp add: analyze_tcp_tracker_eq detect_ddos_def Let_def tracked_def)
  have c1: "connection_tracker ?s1 ''10.0.0.9'' = Some [1]"
    using t1 p1 by (auto simp: dd_get_def split: option.splits)
  have g: "fst (get_ip_investigation_data ?s1 ''10.0.0.9'' 2) = None"
    using d by (simp add: get_ip_investigation_data_def)
  show ?thesis
    using c1 d g by (simp add: tcp_packet_source inet_ntoa_9) (simp add: init_monitor_def)
qed

text \<open>
  Claim C10. For an address that has an entry, \<open>get_ip_investigation_data\<close> returns the
  entry with \<open>status\<close> set from the access lists as they are at the query (\<^verbatim>\<open>blocked\<close> for an
  address on the block list, else \<^verbatim>\<open>whitelisted\<close> for one on the white list, else
  \<^verbatim>\<open>monitoring\<close>) and \<open>last_seen\<close> set to the time of the query, and it stores exactly that
  entry. The two fields then stay in the store: after any run of operations without
  another query of the address, the entry still carries the status and the \<open>last_seen\<close> of
  the query, whatever the access lists have become.
\<close>

theorem query_writes_into_the_store:
  assumes "ip_investigation_data s ip = Some d" and "\<forall>x \<in> set ops. \<not> is_query_of ip x"
  shows
   "get_ip_investigation_data s ip now =
      (Some (d\<lparr>status := Some (if ip \<in> blocked_ips s then ''blocked''
                               else if ip \<in> whitelisted_ips s then ''whitelisted''
                               else ''monitoring''),
               last_seen := Some now\<rparr>),
       s\<lparr>ip_investigation_data :=
           (ip_investigation_data s)
             (ip \<mapsto> d\<lparr>status := Some (if ip \<in> blocked_ips s then ''blocked''
                                      else if ip \<in> whitelisted_ips s then ''whitelisted''
                                      else ''monitoring''),
                      last_seen := Some now\<rparr>)\<rparr>) \<and>
    ip_investigation_data (snd (get_ip_investigation_data s ip now)) ip =
      fst (get_ip_investigation_data s ip now) \<and>
    map_option status
      (ip_investigation_data (run (snd (get_ip_investigation_data s ip now)) ops) ip) =
      Some (Some (if ip \<in> blocked_ips s then ''blocked''
                  else if ip \<in> whitelisted_ips s then ''whitelisted''
                  else ''monitoring'')) \<and>
    map_option last_seen
      (ip_investigation_data (run (snd (get_ip_investigation_data s ip now)) ops) ip) =
      Some (Some now)"
proof -
  let ?st = "if ip \<in> blocked_ips s then ''blocked''
             else if ip \<in> whitelisted_ips s then ''whitelisted'' else ''monitoring''"
  let ?d = "d\<lparr>status := Some ?st, last_seen := Some now\<rparr>"
  let ?s1 = "snd (get_ip_investigation_data s ip now)"
  have g: "get_ip_investigation_data s ip now =
      (Some ?d, s\<lparr>ip_investigation_data := (ip_investigation_data s)(ip \<mapsto> ?d)\<rparr>)"
    using assms(1) by (simp add: get_ip_investigation_data_def current_status_def Let_def)
  have st: "ip_investigation_data ?s1 ip = Some ?d" unfolding g by simp
  have "keeps_stamps_at ip ?s1 (run ?s1 ops)" using assms(2) by (rule run_stamps)
  with st obtain d' where d': "ip_investigation_data (run ?s1 ops) ip = Some d'"
    "status d' = status ?d" "last_seen d' = last_seen ?d"
    unfolding keeps_stamps_at_def by blast
  have r1: "map_option status (ip_investigation_data (run ?s1 ops) ip) = Some (Some ?st)"
    using d' by simp
  have r2: "map_option last_seen (ip_investigation_data (run ?s1 ops) ip) = Some (Some now)"
    using d' by simp
  show ?thesis
    using g st r1 r2 by (intro conjI) simp_all
qed

text \<open>
  An address blocked at time 1, given notes at 2 and queried at 500: the query stores
  \<^verbatim>\<open>blocked\<close> and 500, and both are still there after the address has been whitelisted and
  taken off the block list. The same query of a whitelisted address stores \<^verbatim>\<open>whitelisted\<close>,
  and of an address on neither list \<^verbatim>\<open>monitoring\<close>.
\<close>

theorem query_writes_witness:
  "ip_investigation_data
     (snd (update_ip_notes (snd (block_ip init_monitor ''10.0.0.9'' 1)) ''10.0.0.9'' ''seen'' 2))
     ''10.0.0.9'' = Some ((new_dossier 2 {})\<lparr>dossier_notes := ''seen''\<rparr>) \<and>
   \<not> is_query_of ''10.0.0.9'' (Allow ''10.0.0.9'' 600) \<and>
   fst (get_ip_investigation_data
          (snd (update_ip_notes (snd (block_ip init_monitor ''10.0.0.9'' 1)) ''10.0.0.9'' ''seen'' 2))
          ''10.0.0.9'' 500) =
     Some ((new_dossier 2 {})\<lparr>dossier_notes := ''seen'', status := Some ''blocked'',
                               last_seen := Some 500\<rparr>) \<and>
   map_option status
     (ip_investigation_data
        (run (snd (get_ip_investigation_data
                     (snd (update_ip_notes (snd (block_ip init_monitor ''10.0.0.9'' 1))
                             ''10.0.0.9'' ''seen'' 2)) ''10.0.0.9'' 500))
           [Allow ''10.0.0.9'' 600]) ''10.0.0.9'') = Some (Some ''blocked'') \<and>
   map_option last_seen
     (ip_investigation_data
        (run (snd (get_ip_investigation_data
                     (snd (update_ip_notes (snd (block_ip init_monitor ''10.0.0.9'' 1))
                             ''10.0.0.9'' ''seen'' 2)) ''10.0.0.9'' 500))
           [Allow ''10.0.0.9'' 600]) ''10.0.0.9'') = Some (Some 500) \<and>
   ''10.0.0.9'' \<in> whitelisted_ips
        (run (snd (get_ip_investigation_data
                     (snd (update_ip_notes (snd (block_ip init_monitor ''10.0.0.9'' 1))
                             ''10.0.0.9'' ''seen'' 2)) ''10.0.0.9'' 500))
           [Allow ''10.0.0.9'' 600]) \<and>
   ''10.0.0.9'' \<notin> blocked_ips
        (run (snd (get_ip_investigation_data
                     (snd (update_ip_notes (snd (block_ip init_monitor ''10.0.0.9'' 1))
                             ''10.0.0.9'' ''seen'' 2)) ''10.0.0.9'' 500))
           [Allow ''10.0.0.9'' 600]) \<and>
   fst (get_ip_investigation_data
          (snd (update_ip_notes (snd (whitelist_ip init_monitor ''10.0.0.9'' 1))
                  ''10.0.0.9'' ''seen'' 2))
          ''10.0.0.9'' 500) =
     Some ((new_dossier 2 {})\<lparr>dossier_notes := ''seen'', status := Some ''whitelisted'',
                               last_seen := Some 500\<rparr>) \<and>
   fst (get_ip_investigation_data
          (snd (update_ip_notes init_monitor ''10.0.0.9'' ''seen'' 2)) ''10.0.0.9'' 500) =
     Some ((new_dossier 2 {})\<lparr>dossier_notes := ''seen'', status := Some ''monitoring'',
                               last_seen := Some 500\<rparr>)"
proof -
  let ?ip = "''10.0.0.9''"
  let ?sB = "snd (update_ip_notes (snd (block_ip init_monitor ?ip 1)) ?ip ''seen'' 2)"
  let ?sW = "snd (update_ip_notes (snd (whitelist_ip init_monitor ?ip 1)) ?ip ''seen'' 2)"
  let ?sM = "snd (update_ip_notes init_monitor ?ip ''seen'' 2)"
  let ?d = "(new_dossier 2 {})\<lparr>dossier_notes := ''seen''\<rparr>"
  have hB: "ip_investigation_data ?sB ?ip = Some ?d"
    by (simp add: update_ip_notes_def block_ip_def Let_def init_monitor_def)
  have hW: "ip_investigation_data ?sW ?ip = Some ?d"
    by (simp add: update_ip_notes_def whitelist_ip_def Let_def init_monitor_def)
  have hM: "ip_investigation_data ?sM ?ip = Some ?d"
    by (simp add: update_ip_notes_def Let_def init_monitor_def)
  have lB: "?ip \<in> blocked_ips ?sB"
    by (simp add: update_ip_notes_def block_ip_def Let_def init_monitor_def)
  have lW: "?ip \<notin> blocked_ips ?sW" "?ip \<in> whitelisted_ips ?sW"
    by (simp_all add: update_ip_notes_def whitelist_ip_def Let_def init_monitor_def)
  have lM: "?ip \<notin> blocked_ips ?sM" "?ip \<notin> whitelisted_ips ?sM"
    by (simp_all add: update_ip_notes_def Let_def init_monitor_def)
  have h2: "\<forall>x \<in> set [Allow ?ip 600]. \<not> is_query_of ?ip x" by simp
  have h0: "\<forall>x \<in> set []. \<not> is_query_of ?ip x" by simp
  have w: "?ip \<in> whitelisted_ips (run (snd (get_ip_investigation_data ?sB ?ip 500)) [Allow ?ip 600])"
    "?ip \<notin> blocked_ips (run (snd (get_ip_investigation_data ?sB ?ip 500)) [Allow ?ip 600])"
    by (simp_all add: whitelist_ip_lists)
  note TB = query_writes_into_the_store [OF hB h2, of 500]
  note TW = query_writes_into_the_store [OF hW h0, of 500]
  note TM = query_writes_into_the_store [OF hM h0, of 500]
  have b1: "fst (get_ip_investigation_data ?sB ?ip 500) =
      Some (?d\<lparr>status := Some ''blocked'', last_seen := Some 500\<rparr>)"
    using TB lB by simp
  have b2: "map_option status
      (ip_investigation_data
         (run (snd (get_ip_investigation_data ?sB ?ip 500)) [Allow ?ip 600]) ?ip) =
      Some (Some ''blocked'')"
    using conjunct1 [OF conjunct2 [OF conjunct2 [OF TB]]] lB by simp
  have b3: "map_option last_seen
      (ip_investigation_data
         (run (snd (get_ip_investigation_data ?sB ?ip 500)) [Allow ?ip 600]) ?ip) =
      Some (Some 500)"
    using TB by blast
  have w1: "fst (get_ip_investigation_data ?sW ?ip 500) =
      Some (?d\<lparr>status := Some ''whitelisted'', last_seen := Some 500\<rparr>)"
    using conjunct1 [OF TW] lW by simp
  have m1: "fst (get_ip_investigation_data ?sM ?ip 500) =
      Some (?d\<lparr>status := Some ''monitoring'', last_seen := Some 500\<rparr>)"
    using conjunct1 [OF TM] lM by simp
  show ?thesis
    using hB b1 b2 b3 w w1 m1 by (intro conjI) simp_all
qed

section \<open>Properties of the anomaly detector\<close>

lemma length_deque_append: "length (deque_append n q x) = min n (length q + 1)"
  by (simp add: deque_append_def Let_def)

lemma update_metrics_frame [simp]:
  "baseline (update_metrics d td t) = baseline d"
  "baseline_established (update_metrics d td t) = baseline_established d"
  "start_time (update_metrics d td t) = start_time d"
  "baseline_period (update_metrics d td t) = baseline_period d"
  "thresholds (update_metrics d td t) = thresholds d"
  "detector_alerts (update_metrics d td t) = detector_alerts d"
  by (simp_all add: update_metrics_def Let_def)

lemma update_metrics_lengths:
  "length (packet_rates (update_metrics d td t)) = min 100 (length (packet_rates d) + 1)"
  "length (connection_counts (update_metrics d td t)) = min 100 (length (connection_counts d) + 1)"
  "length (port_distributions (update_metrics d td t)) = min 100 (length (port_distributions d) + 1)"
  by (simp_all add: update_metrics_def Let_def length_deque_append)

lemma wf_update_metrics: "wf_detector d \<Longrightarrow> wf_detector (update_metrics d td t)"
  by (simp add: wf_detector_def update_metrics_lengths split: option.splits)

lemma mean_and_std_two: "2 \<le> length xs \<Longrightarrow> mean_and_std xs = Inr (mean_val xs, stdev_val xs)"
  by (auto simp: mean_and_std_def mean_def stdev_def)

lemma stdev_val_nonneg: "0 \<le> stdev_val xs"
proof (cases "xs = []")
  case True
  then show ?thesis by (simp add: stdev_val_def)
next
  case False
  then have "0 \<le> real (length xs) - 1" by (cases xs) simp_all
  moreover have "0 \<le> (\<Sum>x\<leftarrow>xs. (real x - mean_val xs)\<^sup>2)" by (rule sum_list_nonneg) auto
  ultimately show ?thesis unfolding stdev_val_def by simp
qed

lemma establish_baseline_wf:
  assumes "wf_detector d"
  shows "establish_baseline d now =
     (if baseline_period d \<le> now - start_time d \<and> 50 \<le> length (packet_rates d)
      then (Inr True, d\<lparr>baseline := Some (baseline_of d), baseline_established := True\<rparr>)
      else (Inr False, d))"
proof (cases "baseline_period d \<le> now - start_time d \<and> 50 \<le> length (packet_rates d)")
  case True
  then have "2 \<le> length (packet_rates d)" "2 \<le> length (connection_counts d)"
    "2 \<le> length (port_distributions d)"
    using assms by (simp_all add: wf_detector_def)
  then show ?thesis
    using True by (simp add: establish_baseline_def mean_and_std_two baseline_of_def)
next
  case False
  then show ?thesis by (auto simp: establish_baseline_def)
qed

lemma add_alerts_frame [simp]:
  "baseline (snd (add_alerts d as t)) = baseline d"
  "baseline_established (snd (add_alerts d as t)) = baseline_established d"
  "start_time (snd (add_alerts d as t)) = start_time d"
  "baseline_period (snd (add_alerts d as t)) = baseline_period d"
  "thresholds (snd (add_alerts d as t)) = thresholds d"
  "packet_rates (snd (add_alerts d as t)) = packet_rates d"
  "connection_counts (snd (add_alerts d as t)) = connection_counts d"
  "port_distributions (snd (add_alerts d as t)) = port_distributions d"
  "current_metrics (snd (add_alerts d as t)) = current_metrics d"
  by (induction as arbitrary: d; simp split: sum.splits)+

text \<open>A call with the baseline in place leaves everything but the alerts as \<open>update_metrics\<close> made it.\<close>

lemma analyze_traffic_established:
  assumes "baseline_established d"
  shows "baseline (snd (analyze_traffic d td t1 t2 t3)) = baseline d"
    and "baseline_established (snd (analyze_traffic d td t1 t2 t3))"
    and "packet_rates (snd (analyze_traffic d td t1 t2 t3)) = packet_rates (update_metrics d td t1)"
    and "connection_counts (snd (analyze_traffic d td t1 t2 t3)) = connection_counts (update_metrics d td t1)"
    and "port_distributions (snd (analyze_traffic d td t1 t2 t3)) = port_distributions (update_metrics d td t1)"
    and "start_time (snd (analyze_traffic d td t1 t2 t3)) = start_time d"
    and "baseline_period (snd (analyze_traffic d td t1 t2 t3)) = baseline_period d"
  using assms
  by (simp_all add: analyze_traffic_def Let_def split: sum.splits prod.splits)
     (metis add_alerts_frame snd_conv update_metrics_frame)+

lemma analyze_traffic_learning:
  assumes "wf_detector d" and "\<not> baseline_established d"
  shows "analyze_traffic d td t1 t2 t3 =
     (Inr [],
      if baseline_period d \<le> t2 - start_time d \<and> 50 \<le> length (packet_rates (update_metrics d td t1))
      then (update_metrics d td t1)
             \<lparr>baseline := Some (baseline_of (update_metrics d td t1)), baseline_established := True\<rparr>
      else update_metrics d td t1)"
  using assms establish_baseline_wf [OF wf_update_metrics [OF assms(1)], of td t1 t2]
  by (simp add: analyze_traffic_def Let_def)

lemma baseline_of_nonneg:
  "0 \<le> packet_rate_std (baseline_of d)" "0 \<le> connection_count_std (baseline_of d)"
  "0 \<le> port_count_std (baseline_of d)"
  by (simp_all add: baseline_of_def stdev_val_nonneg)

lemma wf_analyze_traffic:
  assumes "wf_detector d"
  shows "wf_detector (snd (analyze_traffic d td t1 t2 t3))"
proof (cases "baseline_established d")
  case True
  have "wf_detector (update_metrics d td t1)" using assms by (rule wf_update_metrics)
  then show ?thesis
    using True by (auto simp: wf_detector_def analyze_traffic_established split: option.splits)
next
  case False
  have w: "wf_detector (update_metrics d td t1)" using assms by (rule wf_update_metrics)
  show ?thesis
    unfolding analyze_traffic_learning [OF assms False]
    using w by (simp add: wf_detector_def baseline_of_nonneg split: option.splits)
qed

lemma wf_run_ticks: "wf_detector d \<Longrightarrow> wf_detector (run_ticks d ticks)"
  by (induction d ticks rule: run_ticks.induct) (simp_all add: wf_analyze_traffic)

lemma run_ticks_frozen:
  "baseline_established d \<Longrightarrow>
     baseline (run_ticks d ticks) = baseline d \<and> baseline_established (run_ticks d ticks)"
  by (induction d ticks rule: run_ticks.induct) (simp_all add: analyze_traffic_established)

lemma analyze_traffic_series:
  assumes "wf_detector d"
  shows "packet_rates (snd (analyze_traffic d td t1 t2 t3)) = packet_rates (update_metrics d td t1)"
proof (cases "baseline_established d")
  case True
  then show ?thesis by (rule analyze_traffic_established)
next
  case False
  show ?thesis unfolding analyze_traffic_learning [OF assms False] by simp
qed

subsection \<open>The baseline\<close>

text \<open>
  Claim C3. In a call of \<open>analyze_traffic\<close> without a baseline, the baseline is established
  if and only if \<open>baseline_period\<close> (3600 seconds when the detector is created) has passed
  since \<open>start_time\<close> at the clock reading of \<open>establish_baseline\<close> and the packet-rate series,
  with the sample of this call in it, holds at least 50 samples. The baseline then holds,
  for each of the three series as they are at that moment, the mean and the standard
  deviation with \<open>n - 1\<close> in the denominator. Once it is established, no run of further
  calls changes the baseline or the flag, whatever traffic arrives.
\<close>

theorem baseline_lifecycle:
  assumes "wf_detector d"
  shows
   "wf_detector (snd (analyze_traffic d td t1 t2 t3)) \<and>
    (\<not> baseline_established d \<longrightarrow>
       (baseline_established (snd (analyze_traffic d td t1 t2 t3)) \<longleftrightarrow>
          baseline_period d \<le> t2 - start_time d \<and>
          50 \<le> length (packet_rates (snd (analyze_traffic d td t1 t2 t3)))) \<and>
       (baseline_established (snd (analyze_traffic d td t1 t2 t3)) \<longrightarrow>
          baseline (snd (analyze_traffic d td t1 t2 t3)) =
            Some (baseline_of (snd (analyze_traffic d td t1 t2 t3))))) \<and>
    (baseline_established d \<longrightarrow>
       baseline (run_ticks d ticks) = baseline d \<and> baseline_established (run_ticks d ticks)) \<and>
    packet_rate_mean (baseline_of d) = real (sum_list (packet_rates d)) / real (length (packet_rates d)) \<and>
    packet_rate_std (baseline_of d) =
      sqrt ((\<Sum>x\<leftarrow>packet_rates d. (real x - packet_rate_mean (baseline_of d))\<^sup>2)
            / (real (length (packet_rates d)) - 1)) \<and>
    connection_count_mean (baseline_of d) =
      real (sum_list (connection_counts d)) / real (length (connection_counts d)) \<and>
    connection_count_std (baseline_of d) =
      sqrt ((\<Sum>x\<leftarrow>connection_counts d. (real x - connection_count_mean (baseline_of d))\<^sup>2)
            / (real (length (connection_counts d)) - 1)) \<and>
    port_count_mean (baseline_of d) =
      real (sum_list (port_distributions d)) / real (length (port_distributions d)) \<and>
    port_count_std (baseline_of d) =
      sqrt ((\<Sum>x\<leftarrow>port_distributions d. (real x - port_count_mean (baseline_of d))\<^sup>2)
            / (real (length (port_distributions d)) - 1)) \<and>
    baseline_period (init_detector t0) = 3600 \<and> wf_detector (init_detector t0) \<and>
    \<not> baseline_established (init_detector t0)"
proof -
  have a: "wf_detector (snd (analyze_traffic d td t1 t2 t3))"
    using assms by (rule wf_analyze_traffic)
  have b: "(baseline_established (snd (analyze_traffic d td t1 t2 t3)) \<longleftrightarrow>
          baseline_period d \<le> t2 - start_time d \<and>
          50 \<le> length (packet_rates (snd (analyze_traffic d td t1 t2 t3)))) \<and>
       (baseline_established (snd (analyze_traffic d td t1 t2 t3)) \<longrightarrow>
          baseline (snd (analyze_traffic d td t1 t2 t3)) =
            Some (baseline_of (snd (analyze_traffic d td t1 t2 t3))))"
    if "\<not> baseline_established d"
    unfolding analyze_traffic_learning [OF assms that]
    using that by (simp add: baseline_of_def)
  have c: "baseline (run_ticks d ticks) = baseline d \<and> baseline_established (run_ticks d ticks)"
    if "baseline_established d"
    using that by (rule run_ticks_frozen)
  have e: "baseline_period (init_detector t0) = 3600 \<and> wf_detector (init_detector t0) \<and>
    \<not> baseline_established (init_detector t0)"
    by (simp add: init_detector_def wf_detector_def)
  show ?thesis
    using a b c e by (simp add: baseline_of_def mean_val_def stdev_val_def)
qed

text \<open>
  A detector created at time 0 with 49 samples in each series: a call at 3599 does not
  establish the baseline, a call at 3600 (the fiftieth sample) does, and two further calls
  leave it as it is.
\<close>

theorem baseline_lifecycle_witness:
  "wf_detector ((init_detector 0)\<lparr>packet_rates := replicate 49 20,
       connection_counts := replicate 49 20, port_distributions := replicate 49 2\<rparr>) \<and>
   \<not> baseline_established ((init_detector 0)\<lparr>packet_rates := replicate 49 20,
       connection_counts := replicate 49 20, port_distributions := replicate 49 2\<rparr>) \<and>
   \<not> baseline_established (snd (analyze_traffic
       ((init_detector 0)\<lparr>packet_rates := replicate 49 20,
          connection_counts := replicate 49 20, port_distributions := replicate 49 2\<rparr>)
       [] 3599 3599 3599)) \<and>
   baseline_established (snd (analyze_traffic
       ((init_detector 0)\<lparr>packet_rates := replicate 49 20,
          connection_counts := replicate 49 20, port_distributions := replicate 49 2\<rparr>)
       [] 3600 3600 3600)) \<and>
   baseline (run_ticks (snd (analyze_traffic
       ((init_detector 0)\<lparr>packet_rates := replicate 49 20,
          connection_counts := replicate 49 20, port_distributions := replicate 49 2\<rparr>)
       [] 3600 3600 3600)) [([], 3601, 3601, 3601), ([], 3602, 3602, 3602)]) =
   baseline (snd (analyze_traffic
       ((init_detector 0)\<lparr>packet_rates := replicate 49 20,
          connection_counts := replicate 49 20, port_distributions := replicate 49 2\<rparr>)
       [] 3600 3600 3600))"
proof -
  let ?D = "(init_detector 0)\<lparr>packet_rates := replicate 49 20,
       connection_counts := replicate 49 20, port_distributions := replicate 49 2\<rparr>"
  let ?D1 = "snd (analyze_traffic ?D [] 3600 3600 3600)"
  have wf: "wf_detector ?D" by (simp add: wf_detector_def init_detector_def)
  have ne: "\<not> baseline_established ?D" by (simp add: init_detector_def)
  have facts: "baseline_period ?D = 3600" "start_time ?D = 0" by (simp_all add: init_detector_def)
  have len: "length (packet_rates (snd (analyze_traffic ?D [] t t' t''))) = 50" for t t' t''
    by (simp add: analyze_traffic_series [OF wf] update_metrics_lengths)
  note T0 = baseline_lifecycle [OF wf, where td = "[]" and ?t1.0 = 3599 and ?t2.0 = 3599
      and ?t3.0 = 3599 and ticks = "[]" and ?t0.0 = 0]
  note T1 = baseline_lifecycle [OF wf, where td = "[]" and ?t1.0 = 3600 and ?t2.0 = 3600
      and ?t3.0 = 3600 and ticks = "[]" and ?t0.0 = 0]
  have a: "\<not> baseline_established (snd (analyze_traffic ?D [] 3599 3599 3599))"
    using T0 ne unfolding facts len by simp
  have b: "baseline_established ?D1"
    using T1 ne unfolding facts len by simp
  have wf1: "wf_detector ?D1" using T1 by blast
  note T2 = baseline_lifecycle [OF wf1, where td = "[]" and ?t1.0 = 0 and ?t2.0 = 0
      and ?t3.0 = 0 and ticks = "[([], 3601, 3601, 3601), ([], 3602, 3602, 3602)]" and ?t0.0 = 0]
  have c: "baseline (run_ticks ?D1 [([], 3601, 3601, 3601), ([], 3602, 3602, 3602)]) = baseline ?D1"
    using T2 b by blast
  show ?thesis using wf ne a b c by blast
qed

subsection \<open>The rule on the global metrics\<close>

lemma exceeds_outside_band: "exceeds c m sd k \<Longrightarrow> outside_band c m k sd"
proof -
  assume e: "exceeds c m sd k"
  then have sd: "0 < sd" and k: "k < \<bar>c - m\<bar> / sd" by (simp_all add: exceeds_def)
  from k sd have "k * sd < \<bar>c - m\<bar>" by (simp add: pos_less_divide_eq)
  then show ?thesis unfolding outside_band_def by linarith
qed

lemma detect_packet_rate_anomaly_wf:
  assumes "baseline_established d" and "baseline d = Some b" and "0 \<le> packet_rate_std b"
  shows "detect_packet_rate_anomaly d =
     Inr (if exceeds (real (packet_rate (current_metrics d))) (packet_rate_mean b)
               (packet_rate_std b) (packet_rate_std_multiplier (thresholds d))
          then Some \<lparr> anomaly_type = ''packet_rate_anomaly'',
                      anomaly_severity =
                        (if \<bar>real (packet_rate (current_metrics d)) - packet_rate_mean b\<bar>
                              / packet_rate_std b
                            > packet_rate_std_multiplier (thresholds d) * 1.5
                         then ''high'' else ''medium''),
                      current_value = Some (packet_rate (current_metrics d)),
                      current_count = None, ip_address = None,
                      expected_range = range_text (packet_rate_mean b) (packet_rate_std b),
                      z_score = \<bar>real (packet_rate (current_metrics d)) - packet_rate_mean b\<bar>
                                  / packet_rate_std b,
                      unusual_ports = None \<rparr>
          else None)"
  using assms by (auto simp: detect_packet_rate_anomaly_def Let_def exceeds_def)

lemma detect_connection_anomaly_wf:
  assumes "baseline_established d" and "baseline d = Some b" and "0 \<le> connection_count_std b"
  shows "detect_connection_anomaly d =
     Inr (if exceeds (real (connection_count (current_metrics d))) (connection_count_mean b)
               (connection_count_std b) (connection_count_std_multiplier (thresholds d))
          then Some \<lparr> anomaly_type = ''connection_anomaly'',
                      anomaly_severity =
                        (if \<bar>real (connection_count (current_metrics d)) - connection_count_mean b\<bar>
                              / connection_count_std b
                            > connection_count_std_multiplier (thresholds d) * 1.5
                         then ''high'' else ''medium''),
                      current_value = Some (connection_count (current_metrics d)),
                      current_count = None, ip_address = None,
                      expected_range = range_text (connection_count_mean b) (connection_count_std b),
                      z_score = \<bar>real (connection_count (current_metrics d)) - connection_count_mean b\<bar>
                                  / connection_count_std b,
                      unusual_ports = None \<rparr>
          else None)"
  using assms by (auto simp: detect_connection_anomaly_def Let_def exceeds_def)

lemma detect_port_anomaly_wf:
  assumes "baseline_established d" and "baseline d = Some b" and "0 \<le> port_count_std b"
  shows "detect_port_anomaly d =
     Inr (if exceeds (real (card (unique_ports (current_metrics d)))) (port_count_mean b)
               (port_count_std b) (connection_count_std_multiplier (thresholds d))
          then Some \<lparr> anomaly_type = ''port_usage_anomaly'',
                      anomaly_severity =
                        (if \<bar>real (card (unique_ports (current_metrics d))) - port_count_mean b\<bar>
                              / port_count_std b
                            > connection_count_std_multiplier (thresholds d) * 1.2
                         then ''medium'' else ''low''),
                      current_value = Some (card (unique_ports (current_metrics d))),
                      current_count = None, ip_address = None,
                      expected_range = range_text (port_count_mean b) (port_count_std b),
                      z_score = \<bar>real (card (unique_ports (current_metrics d))) - port_count_mean b\<bar>
                                  / port_count_std b,
                      unusual_ports = Some (unique_ports (current_metrics d)) \<rparr>
          else None)"
  using assms by (auto simp: detect_port_anomaly_def Let_def exceeds_def)

lemma ip_frequency_loop_total:
  "\<exists>found. ip_frequency_loop d fs = Inr found \<and> (\<forall>a \<in> set found. current_value a = None)"
proof (induction fs)
  case Nil
  show ?case by simp
next
  case (Cons f fs)
  obtain ip counts where f: "f = (ip, counts)" by (cases f)
  from Cons obtain found where IH: "ip_frequency_loop d fs = Inr found"
    "\<forall>a \<in> set found. current_value a = None" by blast
  show ?case
  proof (cases "length counts < 10")
    case True
    then show ?thesis using f IH by simp
  next
    case False
    then have ms: "mean_and_std counts = Inr (mean_val counts, stdev_val counts)"
      by (simp add: mean_and_std_two)
    show ?thesis using f IH False by (simp add: ms Let_def)
  qed
qed

lemma add_alerts_ok:
  "\<forall>a \<in> set as. current_value a \<noteq> None \<Longrightarrow>
   \<exists>als. map (\<lambda>a. create_alert a t) as = map Inr als \<and>
         add_alerts d as t = (Inr (), d\<lparr>detector_alerts := detector_alerts d @ als\<rparr>)"
proof (induction as arbitrary: d)
  case Nil
  show ?case by simp
next
  case (Cons a as)
  from Cons.prems obtain v where v: "current_value a = Some v" by auto
  then obtain al where al: "create_alert a t = Inr al"
    by (simp add: create_alert_def Let_def)
  from Cons.IH [of "d\<lparr>detector_alerts := detector_alerts d @ [al]\<rparr>"] Cons.prems
  obtain als where als: "map (\<lambda>a. create_alert a t) as = map Inr als"
    "add_alerts (d\<lparr>detector_alerts := detector_alerts d @ [al]\<rparr>) as t =
       (Inr (), d\<lparr>detector_alerts := detector_alerts d @ [al]\<rparr>
                  \<lparr>detector_alerts := detector_alerts (d\<lparr>detector_alerts := detector_alerts d @ [al]\<rparr>) @ als\<rparr>)"
    by auto
  show ?case
    by (rule exI [of _ "al # als"]) (simp add: al als)
qed

lemma add_alerts_append:
  "add_alerts d (xs @ ys) t =
     (case add_alerts d xs t of (Inl e, d') \<Rightarrow> (Inl e, d') | (Inr u, d') \<Rightarrow> add_alerts d' ys t)"
  by (induction xs arbitrary: d) (simp_all split: sum.splits)

lemma add_alerts_key_error:
  "ys \<noteq> [] \<Longrightarrow> \<forall>a \<in> set ys. current_value a = None \<Longrightarrow> add_alerts d ys t = (Inl KeyError, d)"
  by (cases ys) (simp_all add: create_alert_def)

lemma detected_simps [simp]:
  "detected (Inr None) = []" "detected (Inr (Some a)) = [a]" "detected (Inl e) = []"
  by (simp_all add: detected_def opt_list_def)

lemma analyze_traffic_detecting:
  assumes wf: "wf_detector d" and b: "baseline d = Some b"
  shows "\<exists>als found.
     detect_ip_frequency_anomaly (update_metrics d td t1) = Inr found \<and>
     map (\<lambda>a. create_alert a t3)
       (detected (detect_packet_rate_anomaly (update_metrics d td t1)) @
        detected (detect_connection_anomaly (update_metrics d td t1)) @
        detected (detect_port_anomaly (update_metrics d td t1))) = map Inr als \<and>
     detector_alerts (snd (analyze_traffic d td t1 t2 t3)) = detector_alerts d @ als \<and>
     fst (analyze_traffic d td t1 t2 t3) =
       (if found = []
        then Inr (detected (detect_packet_rate_anomaly (update_metrics d td t1)) @
                  detected (detect_connection_anomaly (update_metrics d td t1)) @
                  detected (detect_port_anomaly (update_metrics d td t1)))
        else Inl KeyError)"
proof -
  let ?d = "update_metrics d td t1"
  from wf b have est: "baseline_established ?d" and b1: "baseline ?d = Some b"
    and nn: "0 \<le> packet_rate_std b" "0 \<le> connection_count_std b" "0 \<le> port_count_std b"
    by (simp_all add: wf_detector_def)
  obtain pa where pa: "detect_packet_rate_anomaly ?d = Inr pa"
    "\<forall>a \<in> set (opt_list pa). current_value a \<noteq> None"
    using detect_packet_rate_anomaly_wf [OF est b1 nn(1)] by (simp add: opt_list_def)
  obtain ca where ca: "detect_connection_anomaly ?d = Inr ca"
    "\<forall>a \<in> set (opt_list ca). current_value a \<noteq> None"
    using detect_connection_anomaly_wf [OF est b1 nn(2)] by (simp add: opt_list_def)
  obtain po where po: "detect_port_anomaly ?d = Inr po"
    "\<forall>a \<in> set (opt_list po). current_value a \<noteq> None"
    using detect_port_anomaly_wf [OF est b1 nn(3)] by (simp add: opt_list_def)
  obtain found where found: "detect_ip_frequency_anomaly ?d = Inr found"
    "\<forall>a \<in> set found. current_value a = None"
    using ip_frequency_loop_total [of ?d "ip_frequencies ?d"]
    by (auto simp: detect_ip_frequency_anomaly_def)
  let ?G = "opt_list pa @ opt_list ca @ opt_list po"
  have "\<forall>a \<in> set ?G. current_value a \<noteq> None" using pa(2) ca(2) po(2) by auto
  from add_alerts_ok [OF this, of t3 ?d]
  obtain als where als: "map (\<lambda>a. create_alert a t3) ?G = map Inr als"
    "add_alerts ?d ?G t3 = (Inr (), ?d\<lparr>detector_alerts := detector_alerts ?d @ als\<rparr>)"
    by blast
  have tail: "add_alerts (?d\<lparr>detector_alerts := detector_alerts ?d @ als\<rparr>) found t3 =
      (if found = [] then Inr () else Inl KeyError, ?d\<lparr>detector_alerts := detector_alerts ?d @ als\<rparr>)"
    using found(2) by (cases "found = []") (simp_all add: add_alerts_key_error)
  have whole: "add_alerts ?d (opt_list pa @ opt_list ca @ opt_list po @ found) t3 =
      (if found = [] then Inr () else Inl KeyError, ?d\<lparr>detector_alerts := detector_alerts ?d @ als\<rparr>)"
    using add_alerts_append [of ?d ?G found t3] by (simp only: als(2) tail prod.case sum.case append_assoc)
  have D: "detected (detect_packet_rate_anomaly ?d) @ detected (detect_connection_anomaly ?d) @
      detected (detect_port_anomaly ?d) = ?G"
    by (simp add: pa ca po detected_def)
  have r: "analyze_traffic d td t1 t2 t3 =
      (if found = [] then Inr ?G else Inl KeyError,
       ?d\<lparr>detector_alerts := detector_alerts ?d @ als\<rparr>)"
  proof (cases "found = []")
    case True
    then show ?thesis
      using est by (simp add: analyze_traffic_def Let_def pa(1) ca(1) po(1) found(1) als(2))
  next
    case False
    then show ?thesis
      using est by (simp add: analyze_traffic_def Let_def pa(1) ca(1) po(1) found(1) whole)
  qed
  show ?thesis
    unfolding D r using found(1) als(1) by auto
qed

text \<open>
  Claim C4. A call of \<open>analyze_traffic\<close> without a baseline returns no detection and adds
  no alert. With a baseline, each of the three global detectors, run on the metrics of the
  call, returns a detection if and only if the standard deviation of its metric is
  positive and the z-score is above its multiplier; the port detector uses
  \<open>connection_count_std_multiplier\<close>. A detection carries the current value, which lies
  outside the band of the multiplier times the standard deviation around the mean. The
  call appends the alerts of these detections, in this order, to the alerts of the
  detector. A standard deviation of 0 gives no detection.
\<close>

theorem global_metric_rule:
  assumes "wf_detector d"
  shows
   "(\<not> baseline_established d \<longrightarrow>
       fst (analyze_traffic d td t1 t2 t3) = Inr [] \<and>
       detector_alerts (snd (analyze_traffic d td t1 t2 t3)) = detector_alerts d) \<and>
    (baseline d = Some b \<longrightarrow>
       (detected (detect_packet_rate_anomaly (update_metrics d td t1)) \<noteq> [] \<longleftrightarrow>
          exceeds (real (packet_rate (current_metrics (update_metrics d td t1))))
            (packet_rate_mean b) (packet_rate_std b) (packet_rate_std_multiplier (thresholds d))) \<and>
       (detected (detect_connection_anomaly (update_metrics d td t1)) \<noteq> [] \<longleftrightarrow>
          exceeds (real (connection_count (current_metrics (update_metrics d td t1))))
            (connection_count_mean b) (connection_count_std b)
            (connection_count_std_multiplier (thresholds d))) \<and>
       (detected (detect_port_anomaly (update_metrics d td t1)) \<noteq> [] \<longleftrightarrow>
          exceeds (real (card (unique_ports (current_metrics (update_metrics d td t1)))))
            (port_count_mean b) (port_count_std b)
            (connection_count_std_multiplier (thresholds d))) \<and>
       (\<forall>a \<in> set (detected (detect_packet_rate_anomaly (update_metrics d td t1))).
          current_value a = Some (packet_rate (current_metrics (update_metrics d td t1))) \<and>
          outside_band (real (packet_rate (current_metrics (update_metrics d td t1))))
            (packet_rate_mean b) (packet_rate_std_multiplier (thresholds d)) (packet_rate_std b)) \<and>
       (\<forall>a \<in> set (detected (detect_connection_anomaly (update_metrics d td t1))).
          current_value a = Some (connection_count (current_metrics (update_metrics d td t1))) \<and>
          outside_band (real (connection_count (current_metrics (update_metrics d td t1))))
            (connection_count_mean b) (connection_count_std_multiplier (thresholds d))
            (connection_count_std b)) \<and>
       (\<forall>a \<in> set (detected (detect_port_anomaly (update_metrics d td t1))).
          current_value a = Some (card (unique_ports (current_metrics (update_metrics d td t1)))) \<and>
          outside_band (real (card (unique_ports (current_metrics (update_metrics d td t1)))))
            (port_count_mean b) (connection_count_std_multiplier (thresholds d))
            (port_count_std b)) \<and>
       (\<exists>als. map (\<lambda>a. create_alert a t3)
                (detected (detect_packet_rate_anomaly (update_metrics d td t1)) @
                 detected (detect_connection_anomaly (update_metrics d td t1)) @
                 detected (detect_port_anomaly (update_metrics d td t1))) = map Inr als \<and>
              detector_alerts (snd (analyze_traffic d td t1 t2 t3)) = detector_alerts d @ als)) \<and>
    (exceeds c mu sd k \<longleftrightarrow> 0 < sd \<and> k < \<bar>c - mu\<bar> / sd) \<and>
    (sd = 0 \<longrightarrow> \<not> exceeds c mu sd k)"
proof -
  let ?d = "update_metrics d td t1"
  have learning: "fst (analyze_traffic d td t1 t2 t3) = Inr [] \<and>
       detector_alerts (snd (analyze_traffic d td t1 t2 t3)) = detector_alerts d"
    if "\<not> baseline_established d"
    unfolding analyze_traffic_learning [OF assms that] by simp
  have detecting: "(detected (detect_packet_rate_anomaly ?d) \<noteq> [] \<longleftrightarrow>
          exceeds (real (packet_rate (current_metrics ?d)))
            (packet_rate_mean b) (packet_rate_std b) (packet_rate_std_multiplier (thresholds d))) \<and>
       (detected (detect_connection_anomaly ?d) \<noteq> [] \<longleftrightarrow>
          exceeds (real (connection_count (current_metrics ?d)))
            (connection_count_mean b) (connection_count_std b)
            (connection_count_std_multiplier (thresholds d))) \<and>
       (detected (detect_port_anomaly ?d) \<noteq> [] \<longleftrightarrow>
          exceeds (real (card (unique_ports (current_metrics ?d))))
            (port_count_mean b) (port_count_std b)
            (connection_count_std_multiplier (thresholds d))) \<and>
       (\<forall>a \<in> set (detected (detect_packet_rate_anomaly ?d)).
          current_value a = Some (packet_rate (current_metrics ?d)) \<and>
          outside_band (real (packet_rate (current_metrics ?d)))
            (packet_rate_mean b) (packet_rate_std_multiplier (thresholds d)) (packet_rate_std b)) \<and>
       (\<forall>a \<in> set (detected (detect_connection_anomaly ?d)).
          current_value a = Some (connection_count (current_metrics ?d)) \<and>
          outside_band (real (connection_count (current_metrics ?d)))
            (connection_count_mean b) (connection_count_std_multiplier (thresholds d))
            (connection_count_std b)) \<and>
       (\<forall>a \<in> set (detected (detect_port_anomaly ?d)).
          current_value a = Some (card (unique_ports (current_metrics ?d))) \<and>
          outside_band (real (card (unique_ports (current_metrics ?d))))
            (port_count_mean b) (connection_count_std_multiplier (thresholds d))
            (port_count_std b)) \<and>
       (\<exists>als. map (\<lambda>a. create_alert a t3)
                (detected (detect_packet_rate_anomaly ?d) @
                 detected (detect_connection_anomaly ?d) @
                 detected (detect_port_anomaly ?d)) = map Inr als \<and>
              detector_alerts (snd (analyze_traffic d td t1 t2 t3)) = detector_alerts d @ als)"
    if b: "baseline d = Some b"
  proof -
    from assms b have est: "baseline_established ?d" and b1: "baseline ?d = Some b"
      and nn: "0 \<le> packet_rate_std b" "0 \<le> connection_count_std b" "0 \<le> port_count_std b"
      by (simp_all add: wf_detector_def)
    note pr = detect_packet_rate_anomaly_wf [OF est b1 nn(1)]
    note cc = detect_connection_anomaly_wf [OF est b1 nn(2)]
    note po = detect_port_anomaly_wf [OF est b1 nn(3)]
    have 1: "detected (detect_packet_rate_anomaly ?d) \<noteq> [] \<longleftrightarrow>
          exceeds (real (packet_rate (current_metrics ?d)))
            (packet_rate_mean b) (packet_rate_std b) (packet_rate_std_multiplier (thresholds d))"
      unfolding pr by simp
    have 2: "detected (detect_connection_anomaly ?d) \<noteq> [] \<longleftrightarrow>
          exceeds (real (connection_count (current_metrics ?d)))
            (connection_count_mean b) (connection_count_std b)
            (connection_count_std_multiplier (thresholds d))"
      unfolding cc by simp
    have 3: "detected (detect_port_anomaly ?d) \<noteq> [] \<longleftrightarrow>
          exceeds (real (card (unique_ports (current_metrics ?d))))
            (port_count_mean b) (port_count_std b)
            (connection_count_std_multiplier (thresholds d))"
      unfolding po by simp
    have 4: "\<forall>a \<in> set (detected (detect_packet_rate_anomaly ?d)).
          current_value a = Some (packet_rate (current_metrics ?d)) \<and>
          outside_band (real (packet_rate (current_metrics ?d)))
            (packet_rate_mean b) (packet_rate_std_multiplier (thresholds d)) (packet_rate_std b)"
      unfolding pr by (simp add: exceeds_outside_band)
    have 5: "\<forall>a \<in> set (detected (detect_connection_anomaly ?d)).
          current_value a = Some (connection_count (current_metrics ?d)) \<and>
          outside_band (real (connection_count (current_metrics ?d)))
            (connection_count_mean b) (connection_count_std_multiplier (thresholds d))
            (connection_count_std b)"
      unfolding cc by (simp add: exceeds_outside_band)
    have 6: "\<forall>a \<in> set (detected (detect_port_anomaly ?d)).
          current_value a = Some (card (unique_ports (current_metrics ?d))) \<and>
          outside_band (real (card (unique_ports (current_metrics ?d))))
            (port_count_mean b) (connection_count_std_multiplier (thresholds d))
            (port_count_std b)"
      unfolding po by (simp add: exceeds_outside_band)
    have 7: "\<exists>als. map (\<lambda>a. create_alert a t3)
                (detected (detect_packet_rate_anomaly ?d) @
                 detected (detect_connection_anomaly ?d) @
                 detected (detect_port_anomaly ?d)) = map Inr als \<and>
              detector_alerts (snd (analyze_traffic d td t1 t2 t3)) = detector_alerts d @ als"
      using analyze_traffic_detecting [OF assms b, where ?t3.0 = t3 and td = td and ?t1.0 = t1 and ?t2.0 = t2] by blast
    show ?thesis using 1 2 3 4 5 6 7 by blast
  qed
  have ex: "(exceeds c mu sd k \<longleftrightarrow> 0 < sd \<and> k < \<bar>c - mu\<bar> / sd) \<and>
    (sd = 0 \<longrightarrow> \<not> exceeds c mu sd k)"
    by (simp add: exceeds_def)
  show ?thesis using learning detecting ex by blast
qed

text \<open>
  A baseline with packet-rate mean 20 and deviation 2, and port-count deviation 0. Two
  recent entries give a packet rate of 2: the z-score 9 is above 3, so the packet-rate
  detector reports, and 2 lies outside the band from 14 to 26. The port detector reports
  nothing, its deviation being 0. A fresh detector, without a baseline, returns nothing.
\<close>

theorem global_metric_rule_witness:
  "wf_detector ((init_detector 0)\<lparr>baseline_established := True,
       baseline := Some \<lparr>packet_rate_mean = 20, packet_rate_std = 2,
                         connection_count_mean = 20, connection_count_std = 2,
                         port_count_mean = 1, port_count_std = 0\<rparr>\<rparr>) \<and>
   detected (detect_packet_rate_anomaly (update_metrics
      ((init_detector 0)\<lparr>baseline_established := True,
       baseline := Some \<lparr>packet_rate_mean = 20, packet_rate_std = 2,
                         connection_count_mean = 20, connection_count_std = 2,
                         port_count_mean = 1, port_count_std = 0\<rparr>\<rparr>)
      [\<lparr>datum_timestamp = Some 4000, datum_source_ip = Some ''10.0.0.9'', datum_dest_port = Some 80\<rparr>,
       \<lparr>datum_timestamp = Some 4000, datum_source_ip = Some ''10.0.0.9'', datum_dest_port = Some 443\<rparr>]
      4001)) \<noteq> [] \<and>
   detected (detect_port_anomaly (update_metrics
      ((init_detector 0)\<lparr>baseline_established := True,
       baseline := Some \<lparr>packet_rate_mean = 20, packet_rate_std = 2,
                         connection_count_mean = 20, connection_count_std = 2,
                         port_count_mean = 1, port_count_std = 0\<rparr>\<rparr>)
      [\<lparr>datum_timestamp = Some 4000, datum_source_ip = Some ''10.0.0.9'', datum_dest_port = Some 80\<rparr>,
       \<lparr>datum_timestamp = Some 4000, datum_source_ip = Some ''10.0.0.9'', datum_dest_port = Some 443\<rparr>]
      4001)) = [] \<and>
   outside_band 2 20 3 2 \<and>
   fst (analyze_traffic (init_detector 0) [] 10 10 10) = Inr []"
proof -
  let ?b = "\<lparr>packet_rate_mean = 20, packet_rate_std = 2,
                         connection_count_mean = 20, connection_count_std = 2,
                         port_count_mean = 1, port_count_std = 0\<rparr>"
  let ?D = "(init_detector 0)\<lparr>baseline_established := True, baseline := Some ?b\<rparr>"
  let ?td = "[\<lparr>datum_timestamp = Some 4000, datum_source_ip = Some ''10.0.0.9'', datum_dest_port = Some 80\<rparr>,
       \<lparr>datum_timestamp = Some 4000, datum_source_ip = Some ''10.0.0.9'', datum_dest_port = Some 443\<rparr>]"
  have wf: "wf_detector ?D" by (simp add: wf_detector_def init_detector_def)
  have b: "baseline ?D = Some ?b" by simp
  have m: "packet_rate (current_metrics (update_metrics ?D ?td 4001)) = 2"
    "card (unique_ports (current_metrics (update_metrics ?D ?td 4001))) = 2"
    by (simp_all add: update_metrics_def Let_def count_entry_def empty_metrics_def)
  have th: "packet_rate_std_multiplier (thresholds ?D) = 3"
    "connection_count_std_multiplier (thresholds ?D) = 2.5"
    by (simp_all add: init_detector_def)
  note T = global_metric_rule [OF wf, where b = ?b and td = ?td and ?t1.0 = 4001 and ?t2.0 = 4001
      and ?t3.0 = 4001 and c = 2 and mu = 20 and sd = 2 and k = 3]
  have e1: "exceeds 2 20 2 3" using T by simp
  have e2: "\<not> exceeds 2 1 0 2.5" by (simp add: exceeds_def)
  have r1: "detected (detect_packet_rate_anomaly (update_metrics ?D ?td 4001)) \<noteq> []"
    using T b e1 unfolding m th by simp
  have r2: "detected (detect_port_anomaly (update_metrics ?D ?td 4001)) = []"
    using T b e2 unfolding m th by simp
  have r3: "outside_band 2 20 3 2"
    using T b r1 unfolding m th
    by (cases "detected (detect_packet_rate_anomaly (update_metrics ?D ?td 4001))") auto
  have wf0: "wf_detector (init_detector 0)" by (simp add: wf_detector_def init_detector_def)
  have r4: "fst (analyze_traffic (init_detector 0) [] 10 10 10) = Inr []"
    using global_metric_rule [OF wf0, where td = "[]" and ?t1.0 = 10 and ?t2.0 = 10 and ?t3.0 = 10
        and b = ?b and c = 0 and mu = 0 and sd = 0 and k = 0]
    by (simp add: init_detector_def)
  show ?thesis using wf r1 r2 r3 r4 by blast
qed

end
